theory Spec2Isabelle
  imports Main "HOL-Library.Word"
begin

section \<open>Go strings\<close>

text \<open>
  A Go string is a sequence of bytes; \<^typ>\<open>string\<close> is a list of 8-bit characters, so
  \<^const>\<open>length\<close> is Go's \<open>len\<close> and \<open>take\<close>/\<open>drop\<close> are Go's slices \<open>s[:i]\<close> and
  \<open>s[i:]\<close> for indices within bounds.
\<close>

text \<open>\<open>strings.HasPrefix(s, prefix)\<close>.\<close>

fun HasPrefix :: "string \<Rightarrow> string \<Rightarrow> bool" where
  "HasPrefix s [] = True"
| "HasPrefix [] (p # ps) = False"
| "HasPrefix (c # cs) (p # ps) = (c = p \<and> HasPrefix cs ps)"

text \<open>\<open>strings.Contains(s, substr)\<close>: \<open>substr\<close> occurs in \<open>s\<close> as a contiguous run of bytes.\<close>

fun Contains :: "string \<Rightarrow> string \<Rightarrow> bool" where
  "Contains [] sub = (sub = [])"
| "Contains (c # cs) sub = (HasPrefix (c # cs) sub \<or> Contains cs sub)"


section \<open>Package binloginfo: the write coordinator\<close>

text \<open>
  The fields of \<open>binlog.Binlog\<close> that package binloginfo reads or writes. A field that a
  struct literal leaves out has Go's zero value.
\<close>

datatype BinlogType = BinlogType_Prewrite | BinlogType_Commit | BinlogType_Rollback
  | BinlogType_PreDDL | BinlogType_PostDDL

record Binlog =
  Tp :: BinlogType
  StartTs :: "64 word"
  DdlJobId :: "64 word"
  DdlQuery :: string

text \<open>
  The relay client (\<open>*pumpcli.PumpsClient\<close>) is an external collaborator. The coordinator
  sees one thing of it: what \<open>client.WriteBinlog(data)\<close> returns, \<open>None\<close> for a nil error and
  \<open>Some text\<close> for an error whose \<open>Error()\<close> is \<open>text\<close>. A nil pointer is \<open>None\<close>.
\<close>

type_synonym PumpsClient = "Binlog \<Rightarrow> string option"

record BinlogInfo =
  Data :: Binlog
  Client :: "PumpsClient option"

text \<open>
  The errors \<open>WriteBinlog\<close> builds: \<open>errors.New\<close> and \<open>errors.Errorf\<close> give a plain error
  with a message, \<open>terror.ErrCritical.GenWithStackByArgs(err)\<close> the critical error that
  wraps the relay's error.
\<close>

datatype error = PlainError string | ErrCritical string

text \<open>
  The package-level variables: the two atomic \<open>uint32\<close> flags, the write timeout (a
  \<open>time.Duration\<close>, that is an \<open>int64\<close> of nanoseconds). With them the two things outside
  the package that \<open>WriteBinlog\<close> touches: the value of \<open>metrics.CriticalErrorCounter\<close>, and
  the sequence of events handed to a relay client so far.
\<close>

record globals =
  skipBinlog :: "32 word"
  ignoreError :: "32 word"
  binlogWriteTimeout :: "64 word"
  criticalErrorCounter :: nat
  relayCalls :: "Binlog list"

definition Millisecond :: "64 word" where
  "Millisecond = 1000000"

definition Second :: "64 word" where
  "Second = 1000 * Millisecond"

text \<open>The state at process start: \<open>var binlogWriteTimeout = 15 * time.Second\<close>, flags zero.\<close>

definition init_globals :: globals where
  "init_globals = \<lparr>skipBinlog = 0, ignoreError = 0, binlogWriteTimeout = 15 * Second,
     criticalErrorCounter = 0, relayCalls = []\<rparr>"

text \<open>\<open>SetGRPCTimeout\<close>: durations compare as signed 64-bit integers.\<close>

definition SetGRPCTimeout :: "64 word \<Rightarrow> globals \<Rightarrow> globals" where
  "SetGRPCTimeout timeout g =
     (if timeout <s 300 * Millisecond then g
      else g\<lparr>binlogWriteTimeout := timeout\<rparr>)"

definition DisableSkipBinlogFlag :: "globals \<Rightarrow> globals" where
  "DisableSkipBinlogFlag g = g\<lparr>skipBinlog := 0\<rparr>"

definition SetIgnoreError :: "bool \<Rightarrow> globals \<Rightarrow> globals" where
  "SetIgnoreError on g = (if on then g\<lparr>ignoreError := 1\<rparr> else g\<lparr>ignoreError := 0\<rparr>)"

text \<open>\<open>atomic.CompareAndSwapUint32(&skipBinlog, old, new)\<close>.\<close>

definition CompareAndSwap_skipBinlog :: "32 word \<Rightarrow> 32 word \<Rightarrow> globals \<Rightarrow> globals" where
  "CompareAndSwap_skipBinlog old new g =
     (if skipBinlog g = old then g\<lparr>skipBinlog := new\<rparr> else g)"

text \<open>
  \<open>WriteBinlog\<close>. The method loads \<open>skipBinlog\<close> once, at entry, and uses the loaded value
  \<open>skip\<close> again in the compare-and-swap after the relay call. Other goroutines may write
  the package variables in between; \<open>others\<close> is what they did to the state while the
  relay call was in flight. The result is the returned error (\<open>None\<close> for nil) and the
  state afterwards.
\<close>

definition WriteBinlog_among :: "(globals \<Rightarrow> globals) \<Rightarrow> BinlogInfo \<Rightarrow> globals
    \<Rightarrow> error option \<times> globals" where
  "WriteBinlog_among others info g =
     (let skip = skipBinlog g in
      if skip > 0 then (None, g\<lparr>criticalErrorCounter := criticalErrorCounter g + 1\<rparr>)
      else case Client info of
        None \<Rightarrow> (Some (PlainError ''pumps client is nil''), g)
      | Some client \<Rightarrow>
          let err = client (Data info);
              g1 = others (g\<lparr>relayCalls := relayCalls g @ [Data info]\<rparr>)
          in (case err of
                None \<Rightarrow> (None, g1)
              | Some msg \<Rightarrow>
                  if ignoreError g1 = 1
                  then (None, CompareAndSwap_skipBinlog skip (skip + 1)
                                (g1\<lparr>criticalErrorCounter := criticalErrorCounter g1 + 1\<rparr>))
                  else if Contains msg ''received message larger than max''
                  then (Some (PlainError (''binlog data is too large ('' @ msg @ '')'')), g1)
                  else (Some (ErrCritical msg), g1)))"

text \<open>A call that no other goroutine interferes with.\<close>

definition WriteBinlog :: "BinlogInfo \<Rightarrow> globals \<Rightarrow> error option \<times> globals" where
  "WriteBinlog = WriteBinlog_among id"

text \<open>A run of calls, one after the other, with the errors they returned.\<close>

fun WriteBinlog_seq :: "BinlogInfo list \<Rightarrow> globals \<Rightarrow> error option list \<times> globals" where
  "WriteBinlog_seq [] g = ([], g)"
| "WriteBinlog_seq (info # infos) g =
     (let (e, g1) = WriteBinlog info g;
          (es, g2) = WriteBinlog_seq infos g1
      in (e # es, g2))"

section \<open>Go strings: slices, UTF-8 and case\<close>

definition byte :: "char \<Rightarrow> int" where
  "byte c = of_char c"

text \<open>A Go slice expression \<open>s[lo:hi]\<close>; it panics (\<open>None\<close>) unless \<open>lo \<le> hi \<le> len(s)\<close>.\<close>

definition slice :: "string \<Rightarrow> nat \<Rightarrow> nat \<Rightarrow> string option" where
  "slice s lo hi = (if lo \<le> hi \<and> hi \<le> length s then Some (take (hi - lo) (drop lo s)) else None)"

definition RuneError :: int where
  "RuneError = 0xFFFD"

text \<open>A continuation byte \<open>10xxxxxx\<close>.\<close>

definition cont :: "char \<Rightarrow> bool" where
  "cont c = (0x80 \<le> byte c \<and> byte c \<le> 0xBF)"

text \<open>
  \<open>utf8.DecodeRuneInString\<close> on a non-empty string, given as its first byte and the rest:
  the rune and its width in bytes. Anything that is not a shortest-form encoding of a
  code point outside the surrogate range decodes to \<open>(RuneError, 1)\<close>.
\<close>

definition DecodeRune :: "char \<Rightarrow> string \<Rightarrow> int \<times> nat" where
  "DecodeRune b0 rest =
     (let x = byte b0 in
      if x < 0x80 then (x, 1)
      else if 0xC2 \<le> x \<and> x \<le> 0xDF then
        (case rest of
           b1 # _ \<Rightarrow> if cont b1 then ((x - 0xC0) * 64 + (byte b1 - 0x80), 2) else (RuneError, 1)
         | _ \<Rightarrow> (RuneError, 1))
      else if 0xE0 \<le> x \<and> x \<le> 0xEF then
        (case rest of
           b1 # b2 # _ \<Rightarrow>
             if (if x = 0xE0 then 0xA0 else 0x80) \<le> byte b1
                \<and> byte b1 \<le> (if x = 0xED then 0x9F else 0xBF) \<and> cont b2
             then ((x - 0xE0) * 4096 + (byte b1 - 0x80) * 64 + (byte b2 - 0x80), 3)
             else (RuneError, 1)
         | _ \<Rightarrow> (RuneError, 1))
      else if 0xF0 \<le> x \<and> x \<le> 0xF4 then
        (case rest of
           b1 # b2 # b3 # _ \<Rightarrow>
             if (if x = 0xF0 then 0x90 else 0x80) \<le> byte b1
                \<and> byte b1 \<le> (if x = 0xF4 then 0x8F else 0xBF) \<and> cont b2 \<and> cont b3
             then ((x - 0xF0) * 262144 + (byte b1 - 0x80) * 4096 + (byte b2 - 0x80) * 64
                     + (byte b3 - 0x80), 4)
             else (RuneError, 1)
         | _ \<Rightarrow> (RuneError, 1))
      else (RuneError, 1))"

text \<open>
  \<open>utf8.EncodeRune\<close> (as \<open>strings.Builder.WriteRune\<close> uses it): a surrogate or a value outside
  0 .. U+10FFFF is written as U+FFFD.
\<close>

definition EncodeRune :: "int \<Rightarrow> string" where
  "EncodeRune r =
     (if r < 0 \<or> 0x10FFFF < r \<or> (0xD800 \<le> r \<and> r \<le> 0xDFFF)
      then [CHR 0xEF, CHR 0xBF, CHR 0xBD]
      else if r < 0x80 then [char_of r]
      else if r < 0x800 then [char_of (0xC0 + r div 64), char_of (0x80 + r mod 64)]
      else if r < 0x10000 then
        [char_of (0xE0 + r div 4096), char_of (0x80 + (r div 64) mod 64), char_of (0x80 + r mod 64)]
      else [char_of (0xF0 + r div 262144), char_of (0x80 + (r div 4096) mod 64),
            char_of (0x80 + (r div 64) mod 64), char_of (0x80 + r mod 64)])"

text \<open>
  \<open>strings.Map(mapping, s)\<close>: the string is read rune by rune and the mapped runes are
  written out, a negative one dropped. A rune the mapping leaves alone keeps its bytes;
  a byte that is not valid UTF-8 reads as U+FFFD.
\<close>

fun Map_runes :: "(int \<Rightarrow> int) \<Rightarrow> string \<Rightarrow> string" where
  "Map_runes mapping [] = []"
| "Map_runes mapping (b0 # rest) =
     (let r = mapping (fst (DecodeRune b0 rest))
      in if r < 0 then [] else EncodeRune r)
       @ Map_runes mapping (drop (snd (DecodeRune b0 rest) - 1) rest)"

definition isASCII :: "string \<Rightarrow> bool" where
  "isASCII s = (\<forall>c \<in> set s. byte c < 0x80)"

definition upper_byte :: "char \<Rightarrow> char" where
  "upper_byte c = (if byte (CHR ''a'') \<le> byte c \<and> byte c \<le> byte (CHR ''z'')
                   then char_of (byte c - 32) else c)"

definition lower_byte :: "char \<Rightarrow> char" where
  "lower_byte c = (if byte (CHR ''A'') \<le> byte c \<and> byte c \<le> byte (CHR ''Z'')
                   then char_of (byte c + 32) else c)"

text \<open>
  \<open>strings.ToUpper\<close>. A string of ASCII bytes only is mapped byte by byte. Any other
  string goes through \<open>strings.Map(unicode.ToUpper, s)\<close>; the table behind
  \<open>unicode.ToUpper\<close> belongs to Go's library and is the parameter \<open>toUpper\<close> here.
\<close>

definition ToUpper :: "(int \<Rightarrow> int) \<Rightarrow> string \<Rightarrow> string" where
  "ToUpper toUpper s = (if isASCII s then map upper_byte s else Map_runes toUpper s)"

text \<open>
  The values of \<open>unicode.ToUpper\<close> on ASCII and on four other runes: the micro sign, the
  dotless i, the long s and the turned a (U+0250, whose upper case U+2C6F is one byte
  longer in UTF-8). It stands for the library's table wherever a string has no other
  rune beyond ASCII.
\<close>

definition unicode_ToUpper_excerpt :: "int \<Rightarrow> int" where
  "unicode_ToUpper_excerpt r =
     (if 0x61 \<le> r \<and> r \<le> 0x7A then r - 0x20
      else if r = 0xB5 then 0x39C
      else if r = 0x131 then 0x49
      else if r = 0x17F then 0x53
      else if r = 0x250 then 0x2C6F
      else r)"



section \<open>Regular expressions\<close>

text \<open>
  The fragment of Go's \<open>regexp\<close> syntax that the annotator's pattern uses: a sequence of
  items, each a one-character class taken once, zero or more times (\<open>*\<close>) or one or more
  times (\<open>+\<close>), both greedy. The classes are a literal, \<open>\s\<close> (which is \<open>[\t\n\f\r ]\<close>) and
  \<open>\d\<close> (which is \<open>[0-9]\<close>). Go matches runes, the model bytes: every class holds ASCII
  characters only, and in a Go string an ASCII byte is always a rune of its own, so a
  match is the same run of bytes either way.
\<close>

datatype char_class = Lit char | Space | Digit

datatype rx_item = One char_class | Star char_class | Plus char_class

fun in_class :: "char_class \<Rightarrow> char \<Rightarrow> bool" where
  "in_class (Lit l) c = (c = l)"
| "in_class Space c = (c \<in> set [CHR 0x09, CHR 0x0A, CHR 0x0C, CHR 0x0D, CHR '' ''])"
| "in_class Digit c = (byte (CHR ''0'') \<le> byte c \<and> byte c \<le> byte (CHR ''9''))"

text \<open>
  The match of a pattern at the start of a string, as its length: the first one in the
  order of a backtracking search that prefers the longer repetition, which is the match
  Go's leftmost-first semantics selects.
\<close>

fun match_here :: "rx_item list \<Rightarrow> string \<Rightarrow> nat option" where
  "match_here [] s = Some 0"
| "match_here (One k # p) [] = None"
| "match_here (One k # p) (c # cs) =
     (if in_class k c then map_option Suc (match_here p cs) else None)"
| "match_here (Plus k # p) [] = None"
| "match_here (Plus k # p) (c # cs) =
     (if in_class k c then map_option Suc (match_here (Star k # p) cs) else None)"
| "match_here (Star k # p) [] = match_here p []"
| "match_here (Star k # p) (c # cs) =
     (if in_class k c
      then (case match_here (Star k # p) cs of
              Some n \<Rightarrow> Some (Suc n)
            | None \<Rightarrow> match_here p (c # cs))
      else match_here p (c # cs))"

text \<open>The leftmost match in \<open>s\<close>, whose first byte has index \<open>i\<close> in the whole string.\<close>

fun find_from :: "rx_item list \<Rightarrow> string \<Rightarrow> nat \<Rightarrow> (nat \<times> nat) option" where
  "find_from p [] i = (case match_here p [] of Some n \<Rightarrow> Some (i, i + n) | None \<Rightarrow> None)"
| "find_from p (c # cs) i =
     (case match_here p (c # cs) of
        Some n \<Rightarrow> Some (i, i + n)
      | None \<Rightarrow> find_from p cs (Suc i))"

text \<open>\<open>(*Regexp).FindStringIndex\<close>: the two-element slice \<open>[start, end]\<close>, or nil.\<close>

definition FindStringIndex :: "rx_item list \<Rightarrow> string \<Rightarrow> nat list" where
  "FindStringIndex p s = (case find_from p s 0 of Some (a, b) \<Rightarrow> [a, b] | None \<Rightarrow> [])"


section \<open>Package binloginfo: the DDL annotator\<close>

definition specialPrefix :: string where
  "specialPrefix = ''/*!90000 ''"

text \<open>The compiled pattern \<open>SHARD_ROW_ID_BITS\s*=\s*\d+\<close>.\<close>

definition shard_row_id_bits_regexp :: "rx_item list" where
  "shard_row_id_bits_regexp =
     map (\<lambda>c. One (Lit c)) ''SHARD_ROW_ID_BITS''
       @ [Star Space, One (Lit (CHR ''='')), Star Space, Plus Digit]"

text \<open>
  \<open>addSpecialComment\<close>. The pattern is searched in the upper-cased copy of the query and
  the indices found there cut the query itself. \<open>None\<close> is the run-time panic of a slice
  expression whose index is beyond the query's length.
\<close>

definition addSpecialComment :: "(int \<Rightarrow> int) \<Rightarrow> string \<Rightarrow> string option" where
  "addSpecialComment toUpper ddlQuery =
     (if Contains ddlQuery specialPrefix then Some ddlQuery
      else
        let upperQuery = ToUpper toUpper ddlQuery;
            loc = FindStringIndex shard_row_id_bits_regexp upperQuery
        in if length loc < 2 then Some ddlQuery
           else (case (slice ddlQuery 0 (loc ! 0), slice ddlQuery (loc ! 0) (loc ! 1),
                       slice ddlQuery (loc ! 1) (length ddlQuery)) of
                   (Some head, Some clause, Some rest) \<Rightarrow>
                     Some (head @ specialPrefix @ clause @ '' */'' @ rest)
                 | _ \<Rightarrow> None))"

text \<open>
  A transaction, as far as \<open>SetDDLBinlog\<close> is concerned: its options. \<open>kv.BinlogInfo\<close> is one
  of the option keys of package kv.
\<close>

datatype kv_Option = kv_BinlogInfo | kv_OtherOption nat

datatype option_value = BinlogInfo_value BinlogInfo | Other_value string

record Transaction =
  options :: "kv_Option \<Rightarrow> option_value option"

definition SetOption :: "kv_Option \<Rightarrow> option_value \<Rightarrow> Transaction \<Rightarrow> Transaction" where
  "SetOption opt val txn = txn\<lparr>options := (options txn)(opt \<mapsto> val)\<rparr>"

text \<open>
  \<open>SetDDLBinlog\<close> of binloginfo.go, whose client is a \<open>*pumpcli.PumpsClient\<close>. The result is
  the transaction afterwards, \<open>None\<close> if the annotator panics.
\<close>

definition SetDDLBinlog :: "(int \<Rightarrow> int) \<Rightarrow> PumpsClient option \<Rightarrow> Transaction \<Rightarrow> 64 word
    \<Rightarrow> string \<Rightarrow> Transaction option" where
  "SetDDLBinlog toUpper client txn jobID ddlQuery =
     (case client of
        None \<Rightarrow> Some txn
      | Some c \<Rightarrow>
          (case addSpecialComment toUpper ddlQuery of
             None \<Rightarrow> None
           | Some annotated \<Rightarrow>
               Some (SetOption kv_BinlogInfo
                 (BinlogInfo_value
                    \<lparr>Data = \<lparr>Tp = BinlogType_Prewrite, StartTs = 0, DdlJobId = jobID,
                              DdlQuery = annotated\<rparr>,
                     Client = Some c\<rparr>) txn)))"

text \<open>
  The earlier revision of \<open>SetDDLBinlog\<close>, whose client is an \<open>interface{}\<close>: nil, a
  \<open>*PumpsClient\<close> (which may be a nil pointer), or a value of another type, on which the
  type assertion \<open>client.(*pClient.PumpsClient)\<close> panics.
\<close>

datatype client_interface = Nil_interface | PumpsClient_pointer "PumpsClient option"
  | Other_type

definition SetDDLBinlog_interface :: "(int \<Rightarrow> int) \<Rightarrow> client_interface \<Rightarrow> Transaction
    \<Rightarrow> 64 word \<Rightarrow> string \<Rightarrow> Transaction option" where
  "SetDDLBinlog_interface toUpper client txn jobID ddlQuery =
     (case client of
        Nil_interface \<Rightarrow> Some txn
      | Other_type \<Rightarrow> None
      | PumpsClient_pointer p \<Rightarrow>
          (case addSpecialComment toUpper ddlQuery of
             None \<Rightarrow> None
           | Some annotated \<Rightarrow>
               Some (SetOption kv_BinlogInfo
                 (BinlogInfo_value
                    \<lparr>Data = \<lparr>Tp = BinlogType_Prewrite, StartTs = 0, DdlJobId = jobID,
                              DdlQuery = annotated\<rparr>,
                     Client = p\<rparr>) txn)))"


section \<open>Go strings: searching, splitting and trimming\<close>

text \<open>\<open>strings.Index(s, substr)\<close>: the offset of the first occurrence, \<open>None\<close> for -1.\<close>

fun Index :: "string \<Rightarrow> string \<Rightarrow> nat option" where
  "Index [] sub = (if sub = [] then Some 0 else None)"
| "Index (c # cs) sub =
     (if HasPrefix (c # cs) sub then Some 0 else map_option Suc (Index cs sub))"

text \<open>\<open>strings.LastIndex(s, substr)\<close>: the offset of the last occurrence.\<close>

definition LastIndex :: "string \<Rightarrow> string \<Rightarrow> nat option" where
  "LastIndex s sub =
     (case Index (rev s) (rev sub) of
        None \<Rightarrow> None
      | Some i \<Rightarrow> Some (length s - i - length sub))"

definition HasSuffix :: "string \<Rightarrow> string \<Rightarrow> bool" where
  "HasSuffix s suffix = HasPrefix (rev s) (rev suffix)"

text \<open>\<open>strings.Split(s, sep)\<close> for a separator of one byte: never an empty list.\<close>

fun Split :: "string \<Rightarrow> char \<Rightarrow> string list" where
  "Split [] sep = [[]]"
| "Split (c # cs) sep =
     (if c = sep then [] # Split cs sep
      else (case Split cs sep of
              piece # pieces \<Rightarrow> (c # piece) # pieces
            | [] \<Rightarrow> [[c]]))"

text \<open>\<open>unicode.IsSpace\<close>: the Latin-1 spaces and the code points of \<open>White_Space\<close>.\<close>

definition IsSpace :: "int \<Rightarrow> bool" where
  "IsSpace r =
     ((0x09 \<le> r \<and> r \<le> 0x0D) \<or> r = 0x20 \<or> r = 0x85 \<or> r = 0xA0 \<or> r = 0x1680
      \<or> (0x2000 \<le> r \<and> r \<le> 0x200A) \<or> r = 0x2028 \<or> r = 0x2029 \<or> r = 0x202F
      \<or> r = 0x205F \<or> r = 0x3000)"

text \<open>
  \<open>utf8.DecodeLastRuneInString\<close> on a non-empty string, given as its last byte and the
  bytes before it in reverse order. The rune starts at the nearest of the three bytes
  before the last that is not a continuation byte, and must end with the string.
\<close>

definition decode_through :: "string \<Rightarrow> int \<times> nat" where
  "decode_through bs =
     (case bs of
        [] \<Rightarrow> (RuneError, 1)
      | b0 # rest \<Rightarrow>
          (let (r, size) = DecodeRune b0 rest
           in if size = length bs then (r, size) else (RuneError, 1)))"

definition DecodeLastRune :: "char \<Rightarrow> string \<Rightarrow> int \<times> nat" where
  "DecodeLastRune b earlier =
     (if byte b < 0x80 then (byte b, 1)
      else (case earlier of
              [] \<Rightarrow> (RuneError, 1)
            | b1 # earlier1 \<Rightarrow>
                if \<not> cont b1 then decode_through [b1, b]
                else (case earlier1 of
                        [] \<Rightarrow> (RuneError, 1)
                      | b2 # earlier2 \<Rightarrow>
                          if \<not> cont b2 then decode_through [b2, b1, b]
                          else (case earlier2 of
                                  [] \<Rightarrow> (RuneError, 1)
                                | b3 # earlier3 \<Rightarrow>
                                    if \<not> cont b3 then decode_through [b3, b2, b1, b]
                                    else (RuneError, 1)))))"

text \<open>\<open>strings.TrimLeftFunc(s, unicode.IsSpace)\<close>.\<close>

fun TrimLeft_space :: "string \<Rightarrow> string" where
  "TrimLeft_space [] = []"
| "TrimLeft_space (b0 # rest) =
     (if IsSpace (fst (DecodeRune b0 rest))
      then TrimLeft_space (drop (snd (DecodeRune b0 rest) - 1) rest)
      else b0 # rest)"

text \<open>\<open>strings.TrimRightFunc(s, unicode.IsSpace)\<close>, on the reversed string.\<close>

fun TrimRight_space_rev :: "string \<Rightarrow> string" where
  "TrimRight_space_rev [] = []"
| "TrimRight_space_rev (b # earlier) =
     (if IsSpace (fst (DecodeLastRune b earlier))
      then TrimRight_space_rev (drop (snd (DecodeLastRune b earlier) - 1) earlier)
      else b # earlier)"

text \<open>\<open>strings.TrimSpace\<close>, that is \<open>TrimFunc(s, unicode.IsSpace)\<close>.\<close>

definition TrimSpace :: "string \<Rightarrow> string" where
  "TrimSpace s = rev (TrimRight_space_rev (rev (TrimLeft_space s)))"


section \<open>Go's net/url and net.SplitHostPort\<close>

text \<open>
  \<open>ParseHostPortAddr\<close> rests on three functions of Go's standard library: \<open>url.Parse\<close>,
  \<open>net.SplitHostPort\<close> and \<open>(*URL).String\<close>. They are modelled from the library's source as
  of Go 1.11, the release current when the validator was written.
\<close>

record Userinfo =
  username :: string
  password :: string
  passwordSet :: bool

record URL =
  Scheme :: string
  Opaque :: string
  User :: "Userinfo option"
  Host :: string
  Path :: string
  RawPath :: string
  ForceQuery :: bool
  RawQuery :: string
  Fragment :: string

text \<open>The zero value \<open>new(URL)\<close>.\<close>

definition new_URL :: URL where
  "new_URL = \<lparr>Scheme = [], Opaque = [], User = None, Host = [], Path = [], RawPath = [],
     ForceQuery = False, RawQuery = [], Fragment = []\<rparr>"

datatype encoding = encodePath | encodePathSegment | encodeHost | encodeZone
  | encodeUserPassword | encodeQueryComponent | encodeFragment

text \<open>
  The errors of the package: \<open>EscapeError\<close> and \<open>InvalidHostError\<close> carry the offending
  text, the others are made by \<open>errors.New\<close> or \<open>fmt.Errorf\<close> with a message.
\<close>

datatype url_error = EscapeError string | InvalidHostError string | url_errors_New string

definition between :: "char \<Rightarrow> char \<Rightarrow> char \<Rightarrow> bool" where
  "between lo hi c = (byte lo \<le> byte c \<and> byte c \<le> byte hi)"

definition ishex :: "char \<Rightarrow> bool" where
  "ishex c = (between (CHR ''0'') (CHR ''9'') c \<or> between (CHR ''a'') (CHR ''f'') c
              \<or> between (CHR ''A'') (CHR ''F'') c)"

definition unhex :: "char \<Rightarrow> int" where
  "unhex c =
     (if between (CHR ''0'') (CHR ''9'') c then byte c - byte (CHR ''0'')
      else if between (CHR ''a'') (CHR ''f'') c then byte c - byte (CHR ''a'') + 10
      else if between (CHR ''A'') (CHR ''F'') c then byte c - byte (CHR ''A'') + 10
      else 0)"

definition shouldEscape :: "char \<Rightarrow> encoding \<Rightarrow> bool" where
  "shouldEscape c mode =
     (if between (CHR ''A'') (CHR ''Z'') c \<or> between (CHR ''a'') (CHR ''z'') c
         \<or> between (CHR ''0'') (CHR ''9'') c then False
      else if (mode = encodeHost \<or> mode = encodeZone) \<and> c \<in> set ''!$&'()*+,;=:[]<>\"''
      then False
      else if c \<in> set ''-_.~'' then False
      else if c \<in> set ''$&+,/:;=?@'' \<and> mode = encodePath then c = CHR ''?''
      else if c \<in> set ''$&+,/:;=?@'' \<and> mode = encodePathSegment
      then c \<in> set ''/;,?''
      else if c \<in> set ''$&+,/:;=?@'' \<and> mode = encodeUserPassword
      then c \<in> set ''@/?:''
      else if c \<in> set ''$&+,/:;=?@'' \<and> mode = encodeQueryComponent then True
      else if c \<in> set ''$&+,/:;=?@'' \<and> mode = encodeFragment then False
      else True)"

text \<open>
  \<open>unescape\<close>, first pass: the check of every \<open>%\<close> escape and, for a host or zone, of
  every other byte. \<open>None\<close> when the string is well formed.
\<close>

fun unescape_check :: "string \<Rightarrow> encoding \<Rightarrow> url_error option" where
  "unescape_check [] mode = None"
| "unescape_check (c # cs) mode =
     (if c = CHR ''%'' then
        (case cs of
           h1 # h2 # rest \<Rightarrow>
             if \<not> ishex h1 \<or> \<not> ishex h2 then Some (EscapeError [c, h1, h2])
             else if mode = encodeHost \<and> unhex h1 < 8 \<and> [c, h1, h2] \<noteq> ''%25''
             then Some (EscapeError [c, h1, h2])
             else if mode = encodeZone \<and> [c, h1, h2] \<noteq> ''%25''
                     \<and> unhex h1 * 16 + unhex h2 \<noteq> byte (CHR '' '')
                     \<and> shouldEscape (char_of (unhex h1 * 16 + unhex h2)) encodeHost
             then Some (EscapeError [c, h1, h2])
             else unescape_check rest mode
         | _ \<Rightarrow> Some (EscapeError (c # cs)))
      else if c \<noteq> CHR ''+'' \<and> (mode = encodeHost \<or> mode = encodeZone) \<and> byte c < 0x80
              \<and> shouldEscape c encodeHost
      then Some (InvalidHostError [c])
      else unescape_check cs mode)"

text \<open>\<open>unescape\<close>, second pass, on a string that passed the check.\<close>

fun unescape_bytes :: "string \<Rightarrow> encoding \<Rightarrow> string" where
  "unescape_bytes [] mode = []"
| "unescape_bytes (c # cs) mode =
     (if c = CHR ''%'' then
        (case cs of
           h1 # h2 # rest \<Rightarrow> char_of (unhex h1 * 16 + unhex h2) # unescape_bytes rest mode
         | _ \<Rightarrow> [])
      else if c = CHR ''+'' \<and> mode = encodeQueryComponent then CHR '' '' # unescape_bytes cs mode
      else c # unescape_bytes cs mode)"

definition unescape :: "string \<Rightarrow> encoding \<Rightarrow> url_error + string" where
  "unescape s mode =
     (case unescape_check s mode of
        Some e \<Rightarrow> Inl e
      | None \<Rightarrow> Inr (unescape_bytes s mode))"

definition upperhex :: string where
  "upperhex = ''0123456789ABCDEF''"

fun escape :: "string \<Rightarrow> encoding \<Rightarrow> string" where
  "escape [] mode = []"
| "escape (c # cs) mode =
     (if shouldEscape c mode then
        (if c = CHR '' '' \<and> mode = encodeQueryComponent then CHR ''+'' # escape cs mode
         else CHR ''%'' # upperhex ! nat (byte c div 16) # upperhex ! nat (byte c mod 16)
                # escape cs mode)
      else c # escape cs mode)"

text \<open>\<open>getscheme\<close>: the scheme and the rest after the colon; no scheme gives \<open>('''', rawurl)\<close>.\<close>

fun getscheme_from :: "string \<Rightarrow> string \<Rightarrow> string \<Rightarrow> url_error + string \<times> string" where
  "getscheme_from rawurl seen [] = Inr ([], rawurl)"
| "getscheme_from rawurl seen (c # cs) =
     (if between (CHR ''a'') (CHR ''z'') c \<or> between (CHR ''A'') (CHR ''Z'') c
      then getscheme_from rawurl (seen @ [c]) cs
      else if between (CHR ''0'') (CHR ''9'') c \<or> c \<in> set ''+-.''
      then (if seen = [] then Inr ([], rawurl) else getscheme_from rawurl (seen @ [c]) cs)
      else if c = CHR '':''
      then (if seen = [] then Inl (url_errors_New ''missing protocol scheme'')
            else Inr (seen, cs))
      else Inr ([], rawurl))"

definition getscheme :: "string \<Rightarrow> url_error + string \<times> string" where
  "getscheme rawurl = getscheme_from rawurl [] rawurl"

text \<open>\<open>split(s, c, cutc)\<close> of package url.\<close>

definition url_split :: "string \<Rightarrow> string \<Rightarrow> bool \<Rightarrow> string \<times> string" where
  "url_split s c cutc =
     (case Index s c of
        None \<Rightarrow> (s, [])
      | Some i \<Rightarrow> if cutc then (take i s, drop (i + length c) s) else (take i s, drop i s))"

definition validOptionalPort :: "string \<Rightarrow> bool" where
  "validOptionalPort port =
     (case port of
        [] \<Rightarrow> True
      | c # digits \<Rightarrow> c = CHR '':'' \<and> (\<forall>b \<in> set digits. between (CHR ''0'') (CHR ''9'') b))"

text \<open>
  \<open>parseHost\<close>. Only a host in brackets has its port checked; a \<open>%25\<close> inside the
  brackets starts a zone, which may use more escapes than the host.
\<close>

definition parseHost :: "string \<Rightarrow> url_error + string" where
  "parseHost host =
     (let bracketed =
        (if HasPrefix host ''['' then
           (case LastIndex host '']'' of
              None \<Rightarrow> Some (Inl (url_errors_New ''missing ']' in host''))
            | Some i \<Rightarrow>
                if \<not> validOptionalPort (drop (i + 1) host)
                then Some (Inl (url_errors_New
                       (''invalid port '' @ drop (i + 1) host @ '' after host'')))
                else (case Index (take i host) ''%25'' of
                        None \<Rightarrow> None
                      | Some zone \<Rightarrow>
                          Some (case unescape (take zone host) encodeHost of
                                  Inl e \<Rightarrow> Inl e
                                | Inr host1 \<Rightarrow>
                                    (case unescape (take (i - zone) (drop zone host)) encodeZone of
                                       Inl e \<Rightarrow> Inl e
                                     | Inr host2 \<Rightarrow>
                                         (case unescape (drop i host) encodeHost of
                                            Inl e \<Rightarrow> Inl e
                                          | Inr host3 \<Rightarrow> Inr (host1 @ host2 @ host3))))))
         else None)
      in case bracketed of
           Some result \<Rightarrow> result
         | None \<Rightarrow> unescape host encodeHost)"

definition validUserinfo :: "string \<Rightarrow> bool" where
  "validUserinfo s =
     (\<forall>r \<in> set s. between (CHR ''A'') (CHR ''Z'') r \<or> between (CHR ''a'') (CHR ''z'') r
        \<or> between (CHR ''0'') (CHR ''9'') r \<or> r \<in> set ''-._:~!$&'()*+,;=%@'')"

definition parseAuthority :: "string \<Rightarrow> url_error + Userinfo option \<times> string" where
  "parseAuthority authority =
     (let i = LastIndex authority ''@'' in
      case parseHost (case i of None \<Rightarrow> authority | Some at \<Rightarrow> drop (at + 1) authority) of
        Inl e \<Rightarrow> Inl e
      | Inr host \<Rightarrow>
          (case i of
             None \<Rightarrow> Inr (None, host)
           | Some at \<Rightarrow>
               let userinfo = take at authority in
               if \<not> validUserinfo userinfo then Inl (url_errors_New ''net/url: invalid userinfo'')
               else if \<not> Contains userinfo '':'' then
                 (case unescape userinfo encodeUserPassword of
                    Inl e \<Rightarrow> Inl e
                  | Inr name \<Rightarrow>
                      Inr (Some \<lparr>username = name, password = [], passwordSet = False\<rparr>, host))
               else
                 (case unescape (fst (url_split userinfo '':'' True)) encodeUserPassword of
                    Inl e \<Rightarrow> Inl e
                  | Inr name \<Rightarrow>
                      (case unescape (snd (url_split userinfo '':'' True)) encodeUserPassword of
                         Inl e \<Rightarrow> Inl e
                       | Inr pass \<Rightarrow>
                           Inr (Some \<lparr>username = name, password = pass, passwordSet = True\<rparr>,
                                host)))))"

text \<open>\<open>(*URL).setPath\<close>.\<close>

definition setPath :: "URL \<Rightarrow> string \<Rightarrow> url_error + URL" where
  "setPath u p =
     (case unescape p encodePath of
        Inl e \<Rightarrow> Inl e
      | Inr path \<Rightarrow>
          Inr (u\<lparr>Path := path, RawPath := (if p = escape path encodePath then [] else p)\<rparr>))"

text \<open>\<open>parse(rawurl, viaRequest)\<close>, which \<open>url.Parse\<close> calls on the text before \<open>#\<close>.\<close>

definition parse :: "string \<Rightarrow> bool \<Rightarrow> url_error + URL" where
  "parse rawurl viaRequest =
     (if rawurl = [] \<and> viaRequest then Inl (url_errors_New ''empty url'')
      else if rawurl = ''*'' then Inr (new_URL\<lparr>Path := ''*''\<rparr>)
      else case getscheme rawurl of
        Inl e \<Rightarrow> Inl e
      | Inr (scheme, rest0) \<Rightarrow>
          let url0 = new_URL\<lparr>Scheme := map lower_byte scheme\<rparr>;
              force = (HasSuffix rest0 ''?'' \<and> length (filter (\<lambda>c. c = CHR ''?'') rest0) = 1);
              rest1 = (if force then take (length rest0 - 1) rest0
                       else fst (url_split rest0 ''?'' True));
              url1 = (if force then url0\<lparr>ForceQuery := True\<rparr>
                      else url0\<lparr>RawQuery := snd (url_split rest0 ''?'' True)\<rparr>)
          in if \<not> HasPrefix rest1 ''/'' \<and> Scheme url1 \<noteq> []
             then Inr (url1\<lparr>Opaque := rest1\<rparr>)
             else if \<not> HasPrefix rest1 ''/'' \<and> viaRequest
             then Inl (url_errors_New ''invalid URI for request'')
             else if \<not> HasPrefix rest1 ''/''
                     \<and> (case Index rest1 '':'' of
                           None \<Rightarrow> False
                         | Some colon \<Rightarrow>
                             (case Index rest1 ''/'' of
                                None \<Rightarrow> True
                              | Some slash \<Rightarrow> colon < slash))
             then Inl (url_errors_New ''first path segment in URL cannot contain colon'')
             else if (Scheme url1 \<noteq> [] \<or> (\<not> viaRequest \<and> \<not> HasPrefix rest1 ''///''))
                     \<and> HasPrefix rest1 ''//''
             then (case parseAuthority (fst (url_split (drop 2 rest1) ''/'' False)) of
                     Inl e \<Rightarrow> Inl e
                   | Inr (user, host) \<Rightarrow>
                       setPath (url1\<lparr>User := user, Host := host\<rparr>)
                         (snd (url_split (drop 2 rest1) ''/'' False)))
             else setPath url1 rest1)"

text \<open>
  \<open>url.Parse\<close>. An error comes wrapped in \<open>&Error{"parse", text, err}\<close>, with the text that
  was being parsed.
\<close>

datatype parse_Error = Error string string url_error

definition url_Parse :: "string \<Rightarrow> parse_Error + URL" where
  "url_Parse rawurl =
     (let (u, frag) = url_split rawurl ''#'' True in
      case parse u False of
        Inl e \<Rightarrow> Inl (Error ''parse'' u e)
      | Inr url \<Rightarrow>
          if frag = [] then Inr url
          else (case unescape frag encodeFragment of
                  Inl e \<Rightarrow> Inl (Error ''parse'' rawurl e)
                | Inr fragment \<Rightarrow> Inr (url\<lparr>Fragment := fragment\<rparr>)))"

definition validEncodedPath :: "string \<Rightarrow> bool" where
  "validEncodedPath s =
     (\<forall>c \<in> set s. c \<in> set ''!$&'()*+,;=:@[]%'' \<or> \<not> shouldEscape c encodePath)"

definition EscapedPath :: "URL \<Rightarrow> string" where
  "EscapedPath u =
     (if RawPath u \<noteq> [] \<and> validEncodedPath (RawPath u)
         \<and> unescape (RawPath u) encodePath = Inr (Path u)
      then RawPath u
      else if Path u = ''*'' then ''*''
      else escape (Path u) encodePath)"

definition Userinfo_String :: "Userinfo \<Rightarrow> string" where
  "Userinfo_String ui =
     escape (username ui) encodeUserPassword
       @ (if passwordSet ui then '':'' @ escape (password ui) encodeUserPassword else [])"

text \<open>\<open>(*URL).String\<close>.\<close>

definition URL_String :: "URL \<Rightarrow> string" where
  "URL_String u =
     (let buf0 = (if Scheme u \<noteq> [] then Scheme u @ '':'' else []);
          buf1 =
            (if Opaque u \<noteq> [] then buf0 @ Opaque u
             else
               let authority =
                     (if Scheme u \<noteq> [] \<or> Host u \<noteq> [] \<or> User u \<noteq> None
                      then (if Host u \<noteq> [] \<or> Path u \<noteq> [] \<or> User u \<noteq> None then ''//'' else [])
                           @ (case User u of None \<Rightarrow> [] | Some ui \<Rightarrow> Userinfo_String ui @ ''@'')
                           @ (if Host u \<noteq> [] then escape (Host u) encodeHost else [])
                      else []);
                   path = EscapedPath u;
                   buf2 = buf0 @ authority
                          @ (if path \<noteq> [] \<and> hd path \<noteq> CHR ''/'' \<and> Host u \<noteq> [] then ''/'' else [])
               in buf2
                  @ (if buf2 = []
                        \<and> (case Index path '':'' of
                              None \<Rightarrow> False
                            | Some i \<Rightarrow> Index (take i path) ''/'' = None)
                     then ''./'' else [])
                  @ path)
      in buf1
         @ (if ForceQuery u \<or> RawQuery u \<noteq> [] then ''?'' @ RawQuery u else [])
         @ (if Fragment u \<noteq> [] then ''#'' @ escape (Fragment u) encodeFragment else []))"

text \<open>
  \<open>net.SplitHostPort\<close>: host and port, or the reason of the \<open>AddrError\<close>.
\<close>

definition SplitHostPort :: "string \<Rightarrow> string + string \<times> string" where
  "SplitHostPort hostport =
     (case LastIndex hostport '':'' of
        None \<Rightarrow> Inl ''missing port in address''
      | Some i \<Rightarrow>
          if hd hostport = CHR ''[''
          then (case Index hostport '']'' of
                  None \<Rightarrow> Inl ''missing ']' in address''
                | Some close \<Rightarrow>
                    if close + 1 = length hostport then Inl ''missing port in address''
                    else if close + 1 \<noteq> i
                    then (if hostport ! (close + 1) = CHR '':''
                          then Inl ''too many colons in address''
                          else Inl ''missing port in address'')
                    else if Index (drop 1 hostport) ''['' \<noteq> None
                    then Inl ''unexpected '[' in address''
                    else if Index (drop (close + 1) hostport) '']'' \<noteq> None
                    then Inl ''unexpected ']' in address''
                    else Inr (take (close - 1) (drop 1 hostport), drop (i + 1) hostport))
          else if Index (take i hostport) '':'' \<noteq> None then Inl ''too many colons in address''
          else if Index hostport ''['' \<noteq> None then Inl ''unexpected '[' in address''
          else if Index hostport '']'' \<noteq> None then Inl ''unexpected ']' in address''
          else Inr (take i hostport, drop (i + 1) hostport))"


section \<open>Package utils: the address validator\<close>

text \<open>
  The errors of \<open>ParseHostPortAddr\<close>: \<open>errors.Trace\<close> of what \<open>url.Parse\<close> returned, or
  \<open>errors.Errorf\<close> with a message that ends in the candidate.
\<close>

datatype addr_error = Trace parse_Error | Errorf string

definition invalid_scheme :: "string \<Rightarrow> addr_error" where
  "invalid_scheme str = Errorf (''URL scheme must be http, https, unix, or unixs: '' @ str)"

definition invalid_host_port :: "string \<Rightarrow> addr_error" where
  "invalid_host_port str = Errorf (''URL address does not have the form \"host:port\": '' @ str)"

definition unexpected_path :: "string \<Rightarrow> addr_error" where
  "unexpected_path str = Errorf (''URL must not contain a path: '' @ str)"

text \<open>The body of the loop: the candidate, trimmed and given a scheme if it lacks the
  text \<open>http\<close>.\<close>

definition candidate :: "string \<Rightarrow> string" where
  "candidate str =
     (let str = TrimSpace str in
      if \<not> Contains str ''http'' then ''http://'' @ str else str)"

fun ParseHostPortAddr_loop :: "string list \<Rightarrow> string list \<Rightarrow> addr_error + string list" where
  "ParseHostPortAddr_loop [] addrs = Inr addrs"
| "ParseHostPortAddr_loop (str # strs) addrs =
     (case url_Parse (candidate str) of
        Inl err \<Rightarrow> Inl (Trace err)
      | Inr u \<Rightarrow>
          if Scheme u \<noteq> ''http'' \<and> Scheme u \<noteq> ''https'' \<and> Scheme u \<noteq> ''unix''
             \<and> Scheme u \<noteq> ''unixs''
          then Inl (invalid_scheme (candidate str))
          else (case SplitHostPort (Host u) of
                  Inl why \<Rightarrow> Inl (invalid_host_port (candidate str))
                | Inr hp \<Rightarrow>
                    if Path u \<noteq> [] then Inl (unexpected_path (candidate str))
                    else ParseHostPortAddr_loop strs (addrs @ [URL_String u])))"

definition ParseHostPortAddr :: "string \<Rightarrow> addr_error + string list" where
  "ParseHostPortAddr s = ParseHostPortAddr_loop (Split s (CHR '','')) []"

text \<open>The characters of a plain host:port candidate: letters, digits, dot, hyphen and
  the colon between host and port.\<close>

definition host_port_char :: "char \<Rightarrow> bool" where
  "host_port_char c =
     (between (CHR ''a'') (CHR ''z'') c \<or> between (CHR ''A'') (CHR ''Z'') c
      \<or> between (CHR ''0'') (CHR ''9'') c \<or> c \<in> set ''.-:'')"

text \<open>
  The validator in the words of its contract, one candidate at a time: the candidate is
  parsed as a URI; it fails with the invalid-scheme error if the scheme is none of http,
  https, unix, unixs, else with the invalid-host-port error if the host does not split
  as host:port, else with the unexpected-path error if the path is not empty; otherwise
  it gives the parsed URI written back as text.
\<close>

definition endpoint_of :: "string \<Rightarrow> addr_error + string" where
  "endpoint_of str =
     (case url_Parse (candidate str) of
        Inl err \<Rightarrow> Inl (Trace err)
      | Inr u \<Rightarrow>
          if Scheme u \<notin> set [''http'', ''https'', ''unix'', ''unixs'']
          then Inl (invalid_scheme (candidate str))
          else if isl (SplitHostPort (Host u)) then Inl (invalid_host_port (candidate str))
          else if Path u \<noteq> [] then Inl (unexpected_path (candidate str))
          else Inr (URL_String u))"


text \<open>Concrete data for evaluating the coordinator: an event, a relay client that fails
  every write with a given error text, and the error text gRPC reports for an oversized
  message.\<close>

definition ddl_event :: Binlog where
  "ddl_event = \<lparr>Tp = BinlogType_Prewrite, StartTs = 0, DdlJobId = 7, DdlQuery = ''create table t (a int)''\<rparr>"

definition failing_relay :: "string \<Rightarrow> PumpsClient" where
  "failing_relay msg data = Some msg"

definition too_large_text :: string where
  "too_large_text = ''rpc error: code = ResourceExhausted desc = grpc: received message larger than max (4194305 vs. 4194304)''"

definition unavailable_text :: string where
  "unavailable_text = ''rpc error: code = Unavailable desc = all SubConns are in TransientFailure''"


text \<open>Concrete data for evaluating the annotator: an ASCII statement and its annotation,
  a statement whose table name has a dotless i (U+0131, bytes C4 B1; its upper case is
  the one-byte \<open>I\<close>), a statement whose table name is the turned a (U+0250, bytes C9 90;
  its upper case U+2C6F takes three bytes), and a transaction with no option set.\<close>

definition query_ascii :: string where
  "query_ascii = ''ALTER TABLE t SHARD_ROW_ID_BITS=4''"

definition query_ascii_annotated :: string where
  "query_ascii_annotated = ''ALTER TABLE t /*!90000 SHARD_ROW_ID_BITS=4 */''"

definition query_dotless_i :: string where
  "query_dotless_i = ''create table kay'' @ [CHR 0xC4, CHR 0xB1] @ ''t (a int) shard_row_id_bits=4''"

definition query_turned_a :: string where
  "query_turned_a = ''create table '' @ [CHR 0xC9, CHR 0x90] @ '' (a int) shard_row_id_bits=4''"

definition empty_txn :: Transaction where
  "empty_txn = \<lparr>options = (\<lambda>opt. None)\<rparr>"

text \<open>Concrete data for evaluating the validator: a list of three valid candidates, two
  of them the same, and a list whose second candidate is the first to fail.\<close>

definition addrs_good :: string where
  "addrs_good = '' 127.0.0.1:8250 , https://pump1:8250,127.0.0.1:8250''"

definition addrs_bad_second :: string where
  "addrs_bad_second = ''h:1,bad::port,x/y''"


section \<open>Properties of the write coordinator\<close>

lemma WriteBinlog_open:
  "0 < skipBinlog g \<Longrightarrow>
     WriteBinlog info g = (None, g\<lparr>criticalErrorCounter := criticalErrorCounter g + 1\<rparr>)"
  by (simp add: WriteBinlog_def WriteBinlog_among_def)

lemma WriteBinlog_seq_open:
  "0 < skipBinlog g \<Longrightarrow>
     WriteBinlog_seq infos g =
       (replicate (length infos) None,
        g\<lparr>criticalErrorCounter := criticalErrorCounter g + length infos\<rparr>)"
proof (induction infos arbitrary: g)
  case Nil
  show ?case by simp
next
  case (Cons info infos)
  let ?g1 = "g\<lparr>criticalErrorCounter := criticalErrorCounter g + 1\<rparr>"
  have open1: "0 < skipBinlog ?g1" using Cons.prems by simp
  have first: "WriteBinlog info g = (None, ?g1)"
    by (rule WriteBinlog_open [OF Cons.prems])
  have rest: "WriteBinlog_seq infos ?g1 =
      (replicate (length infos) None,
       ?g1\<lparr>criticalErrorCounter := criticalErrorCounter ?g1 + length infos\<rparr>)"
    by (rule Cons.IH [OF open1])
  show ?case
    using rest by (simp add: first)
qed

text \<open>
  C10. \<open>SetGRPCTimeout(t)\<close> leaves the global binlog write timeout (and every other
  package variable) unchanged when \<open>t\<close> is less than 300 milliseconds, and sets the
  timeout to exactly \<open>t\<close>, changing nothing else, when \<open>t\<close> is at least 300 milliseconds.
\<close>

theorem SetGRPCTimeout_threshold:
  "(sint t < 300000000 \<longrightarrow> SetGRPCTimeout t g = g) \<and>
   (300000000 \<le> sint t \<longrightarrow> SetGRPCTimeout t g = g\<lparr>binlogWriteTimeout := t\<rparr>
      \<and> binlogWriteTimeout (SetGRPCTimeout t g) = t)"
  by (simp add: SetGRPCTimeout_def Millisecond_def word_sless_alt)

theorem SetGRPCTimeout_threshold_witness:
  "sint (299999999 :: 64 word) < 300000000
   \<and> binlogWriteTimeout (SetGRPCTimeout 299999999 init_globals) = 15000000000
   \<and> sint (- 1 :: 64 word) < 300000000
   \<and> binlogWriteTimeout (SetGRPCTimeout (- 1) init_globals) = 15000000000
   \<and> 300000000 \<le> sint (300000000 :: 64 word)
   \<and> binlogWriteTimeout (SetGRPCTimeout 300000000 init_globals) = 300000000"
  using SetGRPCTimeout_threshold [of 299999999 init_globals]
    SetGRPCTimeout_threshold [of "- 1" init_globals]
    SetGRPCTimeout_threshold [of 300000000 init_globals]
  by (simp add: init_globals_def Second_def Millisecond_def)

lemma WriteBinlog_among_failed:
  assumes "skipBinlog g = 0" and "Client info = Some client"
    and "client (Data info) = Some msg"
  shows "WriteBinlog_among others info g =
     (let g1 = others (g\<lparr>relayCalls := relayCalls g @ [Data info]\<rparr>) in
      if ignoreError g1 = 1
      then (None, CompareAndSwap_skipBinlog 0 1
                    (g1\<lparr>criticalErrorCounter := criticalErrorCounter g1 + 1\<rparr>))
      else if Contains msg ''received message larger than max''
      then (Some (PlainError (''binlog data is too large ('' @ msg @ '')'')), g1)
      else (Some (ErrCritical msg), g1))"
  using assms by (simp add: WriteBinlog_among_def Let_def)

lemma too_large_text_matches:
  "Contains too_large_text ''received message larger than max''"
  by (simp add: too_large_text_def)

lemma unavailable_text_no_match:
  "\<not> Contains unavailable_text ''received message larger than max''"
  by (simp add: unavailable_text_def)

text \<open>
  C1, as stated, fails: with \<open>ignoreError\<close> set, a message-too-large failure of the relay
  is swallowed like every other failure. The call returns nil and the compare-and-swap
  moves the skip counter from 0 to 1.
\<close>

theorem too_large_with_ignoreError_trips_breaker:
  "skipBinlog (init_globals\<lparr>ignoreError := 1\<rparr>) = 0
   \<and> Contains too_large_text ''received message larger than max''
   \<and> fst (WriteBinlog \<lparr>Data = ddl_event, Client = Some (failing_relay too_large_text)\<rparr>
            (init_globals\<lparr>ignoreError := 1\<rparr>)) = None
   \<and> skipBinlog (snd (WriteBinlog \<lparr>Data = ddl_event, Client = Some (failing_relay too_large_text)\<rparr>
            (init_globals\<lparr>ignoreError := 1\<rparr>))) = 1"
  by (simp add: too_large_text_matches WriteBinlog_def WriteBinlog_among_def Let_def
      failing_relay_def init_globals_def CompareAndSwap_skipBinlog_def)

text \<open>
  C1, amended. When the breaker is closed, the client is not nil, the relay's error text
  reports a message larger than the maximum, and \<open>ignoreError\<close> is not set, \<open>WriteBinlog\<close>
  returns the plain (non-critical) error "binlog data is too large (...)" and changes no
  package variable and no metric: the skip counter stays 0. The only effect is the relay
  call itself.
\<close>

theorem too_large_is_reported_not_critical:
  assumes "skipBinlog g = 0" and "Client info = Some client"
    and "client (Data info) = Some msg"
    and "Contains msg ''received message larger than max''"
    and "ignoreError g \<noteq> 1"
  shows "WriteBinlog info g =
           (Some (PlainError (''binlog data is too large ('' @ msg @ '')'')),
            g\<lparr>relayCalls := relayCalls g @ [Data info]\<rparr>)
         \<and> skipBinlog (snd (WriteBinlog info g)) = skipBinlog g
         \<and> criticalErrorCounter (snd (WriteBinlog info g)) = criticalErrorCounter g"
  using assms by (simp add: WriteBinlog_def WriteBinlog_among_failed Let_def)

theorem too_large_is_reported_not_critical_witness:
  "WriteBinlog \<lparr>Data = ddl_event, Client = Some (failing_relay too_large_text)\<rparr> init_globals =
     (Some (PlainError (''binlog data is too large ('' @ too_large_text @ '')'')),
      init_globals\<lparr>relayCalls := [ddl_event]\<rparr>)
   \<and> skipBinlog (snd (WriteBinlog \<lparr>Data = ddl_event, Client = Some (failing_relay too_large_text)\<rparr>
         init_globals)) = 0"
  using too_large_is_reported_not_critical
    [of init_globals "\<lparr>Data = ddl_event, Client = Some (failing_relay too_large_text)\<rparr>"
        "failing_relay too_large_text" too_large_text]
  by (simp add: too_large_text_matches failing_relay_def init_globals_def)

text \<open>
  C2. In every state whose skip counter is greater than 0, \<open>WriteBinlog\<close> returns nil, adds
  1 to the critical-error counter and changes nothing else: the relay client is not
  called and the skip counter keeps its value. So every later write of a run of writes
  does the same, whatever the events and clients are. \<open>DisableSkipBinlogFlag\<close> sets the
  counter back to 0.
\<close>

theorem open_breaker_drops_every_write:
  assumes "0 < skipBinlog g"
  shows "WriteBinlog info g = (None, g\<lparr>criticalErrorCounter := criticalErrorCounter g + 1\<rparr>)
       \<and> relayCalls (snd (WriteBinlog info g)) = relayCalls g
       \<and> skipBinlog (snd (WriteBinlog info g)) = skipBinlog g
       \<and> WriteBinlog_seq infos g =
           (replicate (length infos) None,
            g\<lparr>criticalErrorCounter := criticalErrorCounter g + length infos\<rparr>)
       \<and> relayCalls (snd (WriteBinlog_seq infos g)) = relayCalls g
       \<and> skipBinlog (snd (WriteBinlog_seq infos g)) = skipBinlog g
       \<and> skipBinlog (DisableSkipBinlogFlag (snd (WriteBinlog_seq infos g))) = 0"
  by (simp add: WriteBinlog_open [OF assms] WriteBinlog_seq_open [OF assms]
      DisableSkipBinlogFlag_def)

theorem open_breaker_drops_every_write_witness:
  "(0 :: 32 word) < skipBinlog (init_globals\<lparr>skipBinlog := 1\<rparr>)
   \<and> WriteBinlog_seq
        [\<lparr>Data = ddl_event, Client = Some (failing_relay unavailable_text)\<rparr>,
         \<lparr>Data = ddl_event, Client = None\<rparr>]
        (init_globals\<lparr>skipBinlog := 1\<rparr>) =
       ([None, None], init_globals\<lparr>skipBinlog := 1, criticalErrorCounter := 2\<rparr>)
   \<and> relayCalls (snd (WriteBinlog_seq
        [\<lparr>Data = ddl_event, Client = Some (failing_relay unavailable_text)\<rparr>,
         \<lparr>Data = ddl_event, Client = None\<rparr>]
        (init_globals\<lparr>skipBinlog := 1\<rparr>))) = []"
proof -
  have h: "(0 :: 32 word) < skipBinlog (init_globals\<lparr>skipBinlog := 1\<rparr>)"
    by simp
  show ?thesis
    using h open_breaker_drops_every_write
      [OF h, of "\<lparr>Data = ddl_event, Client = None\<rparr>"
         "[\<lparr>Data = ddl_event, Client = Some (failing_relay unavailable_text)\<rparr>,
           \<lparr>Data = ddl_event, Client = None\<rparr>]"]
    by (simp del: WriteBinlog_seq.simps add: init_globals_def)
qed

text \<open>
  C3. The breaker is closed at entry, the client is not nil and the relay's write fails.
  Let \<open>g1\<close> be the state when the relay call returns (other goroutines may have written
  it meanwhile). If \<open>ignoreError\<close> is 1 there, \<open>WriteBinlog\<close> returns nil, adds 1 to the
  critical-error counter and does one compare-and-swap from the value loaded at entry
  (0) to that value plus one: the skip counter becomes 1 if it is still 0 and keeps its
  value otherwise. If \<open>ignoreError\<close> is not 1 and the error text does not report a
  message larger than the maximum, the call returns the critical error wrapping the
  relay's error, and the counters are untouched.
\<close>

theorem relay_failure_is_ignored_or_critical:
  assumes "skipBinlog g = 0" and "Client info = Some client"
    and "client (Data info) = Some msg"
    and "g1 = others (g\<lparr>relayCalls := relayCalls g @ [Data info]\<rparr>)"
  shows "(ignoreError g1 = 1 \<longrightarrow>
            WriteBinlog_among others info g =
              (None, CompareAndSwap_skipBinlog (skipBinlog g) (skipBinlog g + 1)
                       (g1\<lparr>criticalErrorCounter := criticalErrorCounter g1 + 1\<rparr>))
          \<and> skipBinlog (snd (WriteBinlog_among others info g)) =
              (if skipBinlog g1 = skipBinlog g then skipBinlog g + 1 else skipBinlog g1)
          \<and> criticalErrorCounter (snd (WriteBinlog_among others info g)) =
              criticalErrorCounter g1 + 1)
       \<and> (ignoreError g1 \<noteq> 1 \<and> \<not> Contains msg ''received message larger than max'' \<longrightarrow>
            WriteBinlog_among others info g = (Some (ErrCritical msg), g1))"
  using assms
  by (simp add: WriteBinlog_among_failed Let_def CompareAndSwap_skipBinlog_def)

theorem relay_failure_is_ignored_or_critical_witness:
  "WriteBinlog \<lparr>Data = ddl_event, Client = Some (failing_relay unavailable_text)\<rparr>
       (init_globals\<lparr>ignoreError := 1\<rparr>) =
     (None, init_globals\<lparr>ignoreError := 1, relayCalls := [ddl_event],
              criticalErrorCounter := 1, skipBinlog := 1\<rparr>)
   \<and> skipBinlog (snd (WriteBinlog_among (CompareAndSwap_skipBinlog 0 5)
       \<lparr>Data = ddl_event, Client = Some (failing_relay unavailable_text)\<rparr>
       (init_globals\<lparr>ignoreError := 1\<rparr>))) = 5
   \<and> WriteBinlog \<lparr>Data = ddl_event, Client = Some (failing_relay unavailable_text)\<rparr>
       init_globals =
     (Some (ErrCritical unavailable_text), init_globals\<lparr>relayCalls := [ddl_event]\<rparr>)"
  using relay_failure_is_ignored_or_critical
    [of "init_globals\<lparr>ignoreError := 1\<rparr>"
        "\<lparr>Data = ddl_event, Client = Some (failing_relay unavailable_text)\<rparr>"
        "failing_relay unavailable_text" unavailable_text _ id]
    relay_failure_is_ignored_or_critical
    [of "init_globals\<lparr>ignoreError := 1\<rparr>"
        "\<lparr>Data = ddl_event, Client = Some (failing_relay unavailable_text)\<rparr>"
        "failing_relay unavailable_text" unavailable_text _ "CompareAndSwap_skipBinlog 0 5"]
    relay_failure_is_ignored_or_critical
    [of init_globals
        "\<lparr>Data = ddl_event, Client = Some (failing_relay unavailable_text)\<rparr>"
        "failing_relay unavailable_text" unavailable_text _ id]
  by (simp add: unavailable_text_no_match WriteBinlog_def failing_relay_def init_globals_def
      CompareAndSwap_skipBinlog_def)

section \<open>Properties of the DDL annotator\<close>

lemma HasPrefix_append: "HasPrefix (sub @ rest) sub"
  by (induction sub) simp_all

lemma Contains_HasPrefix: "HasPrefix s sub \<Longrightarrow> Contains s sub"
  by (cases s) (auto elim: HasPrefix.elims)

lemma Contains_append_left: "Contains s sub \<Longrightarrow> Contains (pre @ s) sub"
proof (induction pre)
  case Nil
  then show ?case by simp
next
  case (Cons c pre)
  then show ?case by simp
qed

lemma Contains_infix: "Contains (pre @ sub @ rest) sub"
  by (rule Contains_append_left, rule Contains_HasPrefix, rule HasPrefix_append)

lemma match_here_le: "match_here p s = Some n \<Longrightarrow> n \<le> length s"
proof (induction p s arbitrary: n rule: match_here.induct)
  case (7 k p c cs)
  then show ?case
    by (auto split: if_splits option.splits)
qed (auto split: if_splits)

lemma find_from_bounds:
  "find_from p s i = Some (a, b) \<Longrightarrow> i \<le> a \<and> a \<le> b \<and> b \<le> i + length s"
proof (induction s arbitrary: i)
  case Nil
  then show ?case by (auto split: option.splits dest: match_here_le)
next
  case (Cons c cs)
  show ?case
  proof (cases "match_here p (c # cs)")
    case None
    with Cons.prems have "find_from p cs (Suc i) = Some (a, b)" by simp
    from Cons.IH [OF this] show ?thesis by simp
  next
    case (Some n)
    with Cons.prems have "a = i" "b = i + n" by simp_all
    with match_here_le [OF Some] show ?thesis by simp
  qed
qed

lemma FindStringIndex_cases:
  "FindStringIndex p s = [] \<or>
   (\<exists>a b. FindStringIndex p s = [a, b] \<and> a \<le> b \<and> b \<le> length s)"
proof (cases "find_from p s 0")
  case None
  then show ?thesis by (simp add: FindStringIndex_def)
next
  case (Some ab)
  obtain a b where ab: "ab = (a, b)" by (cases ab)
  from find_from_bounds [of p s 0 a b] Some ab
  have "a \<le> b \<and> b \<le> length s" by simp
  with Some ab show ?thesis by (simp add: FindStringIndex_def)
qed

lemma addSpecialComment_marked:
  "Contains q specialPrefix \<Longrightarrow> addSpecialComment up q = Some q"
  by (simp add: addSpecialComment_def)

lemma addSpecialComment_shape:
  assumes "addSpecialComment up q = Some r"
  shows "r = q \<or>
    (\<exists>a b. a \<le> b \<and> b \<le> length q \<and>
       r = take a q @ specialPrefix @ take (b - a) (drop a q) @ '' */'' @ drop b q)"
proof (cases "Contains q specialPrefix")
  case True
  with assms show ?thesis by (simp add: addSpecialComment_def)
next
  case False
  from FindStringIndex_cases [of shard_row_id_bits_regexp "ToUpper up q"]
  show ?thesis
  proof
    assume "FindStringIndex shard_row_id_bits_regexp (ToUpper up q) = []"
    with assms False show ?thesis by (simp add: addSpecialComment_def)
  next
    assume "\<exists>a b. FindStringIndex shard_row_id_bits_regexp (ToUpper up q) = [a, b]
              \<and> a \<le> b \<and> b \<le> length (ToUpper up q)"
    then obtain a b where loc: "FindStringIndex shard_row_id_bits_regexp (ToUpper up q) = [a, b]"
      and ab: "a \<le> b" by blast
    from assms False loc ab show ?thesis
      by (auto simp: addSpecialComment_def Let_def slice_def split: if_splits)
  qed
qed

lemma addSpecialComment_fixes_result:
  assumes "addSpecialComment up q = Some r"
  shows "addSpecialComment up r = Some r"
proof -
  from addSpecialComment_shape [OF assms]
  show ?thesis
  proof
    assume "r = q"
    with assms show ?thesis by simp
  next
    assume "\<exists>a b. a \<le> b \<and> b \<le> length q \<and>
       r = take a q @ specialPrefix @ take (b - a) (drop a q) @ '' */'' @ drop b q"
    then obtain a b where
      "r = take a q @ specialPrefix @ take (b - a) (drop a q) @ '' */'' @ drop b q"
      by blast
    then have "Contains r specialPrefix"
      using Contains_infix [of "take a q" specialPrefix "take (b - a) (drop a q) @ '' */'' @ drop b q"]
      by simp
    then show ?thesis by (rule addSpecialComment_marked)
  qed
qed

lemma length_ToUpper_ascii: "isASCII q \<Longrightarrow> length (ToUpper up q) = length q"
  by (simp add: ToUpper_def)

lemma addSpecialComment_no_panic:
  assumes "length (ToUpper up q) \<le> length q"
  shows "\<exists>r. addSpecialComment up q = Some r"
proof (cases "Contains q specialPrefix")
  case True
  then show ?thesis by (simp add: addSpecialComment_def)
next
  case False
  from FindStringIndex_cases [of shard_row_id_bits_regexp "ToUpper up q"]
  show ?thesis
  proof
    assume "FindStringIndex shard_row_id_bits_regexp (ToUpper up q) = []"
    with False show ?thesis by (simp add: addSpecialComment_def)
  next
    assume "\<exists>a b. FindStringIndex shard_row_id_bits_regexp (ToUpper up q) = [a, b]
              \<and> a \<le> b \<and> b \<le> length (ToUpper up q)"
    then obtain a b where loc: "FindStringIndex shard_row_id_bits_regexp (ToUpper up q) = [a, b]"
      and ab: "a \<le> b" "b \<le> length (ToUpper up q)" by blast
    with assms have "b \<le> length q" by simp
    with False loc ab show ?thesis
      by (simp add: addSpecialComment_def Let_def slice_def)
  qed
qed

lemma find_from_first:
  "find_from p s i = Some (a, b) \<Longrightarrow>
     i \<le> a \<and> match_here p (drop (a - i) s) = Some (b - a)
     \<and> (\<forall>j < a - i. match_here p (drop j s) = None)"
proof (induction s arbitrary: i)
  case Nil
  then show ?case by (auto split: option.splits)
next
  case (Cons c cs)
  show ?case
  proof (cases "match_here p (c # cs)")
    case None
    with Cons.prems have rest: "find_from p cs (Suc i) = Some (a, b)" by simp
    from Cons.IH [OF rest]
    have ia: "Suc i \<le> a" and m: "match_here p (drop (a - Suc i) cs) = Some (b - a)"
      and before: "\<forall>j < a - Suc i. match_here p (drop j cs) = None" by simp_all
    from ia have step: "a - i = Suc (a - Suc i)" by simp
    have "\<forall>j < a - i. match_here p (drop j (c # cs)) = None"
    proof (intro allI impI)
      fix j assume j: "j < a - i"
      show "match_here p (drop j (c # cs)) = None"
      proof (cases j)
        case 0
        with None show ?thesis by simp
      next
        case (Suc j')
        with j step have "j' < a - Suc i" by simp
        with before Suc show ?thesis by simp
      qed
    qed
    with ia m step show ?thesis by simp
  next
    case (Some n)
    with Cons.prems have "a = i" "b = i + n" by simp_all
    with Some show ?thesis by simp
  qed
qed

lemma find_from_none:
  "find_from p s i = None \<Longrightarrow> \<forall>j \<le> length s. match_here p (drop j s) = None"
proof (induction s arbitrary: i)
  case Nil
  then show ?case by (auto split: option.splits)
next
  case (Cons c cs)
  from Cons.prems have here: "match_here p (c # cs) = None"
    by (auto split: option.splits)
  with Cons.prems have "find_from p cs (Suc i) = None" by simp
  from Cons.IH [OF this] have rest: "\<forall>j \<le> length cs. match_here p (drop j cs) = None" .
  show ?case
  proof (intro allI impI)
    fix j assume j: "j \<le> length (c # cs)"
    show "match_here p (drop j (c # cs)) = None"
    proof (cases j)
      case 0
      with here show ?thesis by simp
    next
      case (Suc j')
      with j rest show ?thesis by simp
    qed
  qed
qed

lemma addSpecialComment_ascii_first_match:
  assumes ascii: "isASCII q" and unmarked: "\<not> Contains q specialPrefix"
  shows "(addSpecialComment toUpper q = Some q
          \<and> (\<forall>j \<le> length q.
                match_here shard_row_id_bits_regexp (map upper_byte (drop j q)) = None))
       \<or> (\<exists>a n. match_here shard_row_id_bits_regexp (map upper_byte (drop a q)) = Some n
            \<and> (\<forall>j < a. match_here shard_row_id_bits_regexp (map upper_byte (drop j q)) = None)
            \<and> a + n \<le> length q
            \<and> addSpecialComment toUpper q =
                Some (take a q @ specialPrefix @ take n (drop a q) @ '' */'' @ drop (a + n) q))"
proof (cases "find_from shard_row_id_bits_regexp (map upper_byte q) 0")
  case None
  from find_from_none [OF None]
  have "\<forall>j \<le> length q. match_here shard_row_id_bits_regexp (map upper_byte (drop j q)) = None"
    by (simp add: drop_map)
  moreover from None ascii unmarked have "addSpecialComment toUpper q = Some q"
    by (simp add: addSpecialComment_def ToUpper_def FindStringIndex_def)
  ultimately show ?thesis by blast
next
  case (Some ab)
  obtain a b where ab: "ab = (a, b)" by (cases ab)
  with Some have f: "find_from shard_row_id_bits_regexp (map upper_byte q) 0 = Some (a, b)"
    by simp
  from find_from_bounds [OF f] have le: "a \<le> b" "b \<le> length q" by simp_all
  from find_from_first [OF f]
  have m: "match_here shard_row_id_bits_regexp (map upper_byte (drop a q)) = Some (b - a)"
    and first: "\<forall>j < a. match_here shard_row_id_bits_regexp (map upper_byte (drop j q)) = None"
    by (simp_all add: drop_map)
  from f ascii unmarked le
  have "addSpecialComment toUpper q =
      Some (take a q @ specialPrefix @ take (b - a) (drop a q) @ '' */'' @ drop b q)"
    by (simp add: addSpecialComment_def ToUpper_def FindStringIndex_def slice_def)
  with m first le show ?thesis
    by (intro disjI2 exI [of _ a] exI [of _ "b - a"]) simp
qed

lemma SetDDLBinlog_effect:
  "SetDDLBinlog toUpper None txn jobID q = Some txn
   \<and> SetDDLBinlog_interface toUpper Nil_interface txn jobID q = Some txn
   \<and> SetDDLBinlog toUpper (Some c) txn jobID q =
       map_option (\<lambda>annotated. txn\<lparr>options := (options txn)(kv_BinlogInfo \<mapsto>
           BinlogInfo_value \<lparr>Data = \<lparr>Tp = BinlogType_Prewrite, StartTs = 0, DdlJobId = jobID,
                                      DdlQuery = annotated\<rparr>, Client = Some c\<rparr>)\<rparr>)
         (addSpecialComment toUpper q)
   \<and> SetDDLBinlog_interface toUpper (PumpsClient_pointer p) txn jobID q =
       map_option (\<lambda>annotated. txn\<lparr>options := (options txn)(kv_BinlogInfo \<mapsto>
           BinlogInfo_value \<lparr>Data = \<lparr>Tp = BinlogType_Prewrite, StartTs = 0, DdlJobId = jobID,
                                      DdlQuery = annotated\<rparr>, Client = p\<rparr>)\<rparr>)
         (addSpecialComment toUpper q)"
  by (simp add: SetDDLBinlog_def SetDDLBinlog_interface_def SetOption_def split: option.splits)

lemma query_ascii_result:
  "addSpecialComment unicode_ToUpper_excerpt query_ascii =
     Some query_ascii_annotated"
  by code_simp

lemma query_ascii_isASCII: "isASCII query_ascii"
  by code_simp

lemma annotated_is_marked: "Contains query_ascii_annotated specialPrefix"
  by code_simp

text \<open>
  C4. The annotator is idempotent. Applying it to its own result gives that result again,
  and where it panics there is no result to apply it to: in both cases annotating twice
  is annotating once. A statement that contains the marker \<open>/*!90000 \<close> is returned
  unchanged. On a statement of ASCII bytes the annotator always returns.
\<close>

theorem addSpecialComment_idempotent:
  "Option.bind (addSpecialComment toUpper q) (addSpecialComment toUpper)
      = addSpecialComment toUpper q
   \<and> (Contains q specialPrefix \<longrightarrow> addSpecialComment toUpper q = Some q)
   \<and> (isASCII q \<longrightarrow>
        (\<exists>r. addSpecialComment toUpper q = Some r \<and> addSpecialComment toUpper r = Some r))"
proof (intro conjI impI)
  show "Option.bind (addSpecialComment toUpper q) (addSpecialComment toUpper)
      = addSpecialComment toUpper q"
    by (cases "addSpecialComment toUpper q") (simp_all add: addSpecialComment_fixes_result)
next
  assume "Contains q specialPrefix"
  then show "addSpecialComment toUpper q = Some q" by (rule addSpecialComment_marked)
next
  assume "isASCII q"
  then have "length (ToUpper toUpper q) \<le> length q" by (simp add: length_ToUpper_ascii)
  from addSpecialComment_no_panic [OF this]
  obtain r where "addSpecialComment toUpper q = Some r" ..
  with addSpecialComment_fixes_result [OF this]
  show "\<exists>r. addSpecialComment toUpper q = Some r \<and> addSpecialComment toUpper r = Some r"
    by blast
qed

theorem addSpecialComment_idempotent_witness:
  "isASCII query_ascii
   \<and> addSpecialComment unicode_ToUpper_excerpt query_ascii =
       Some query_ascii_annotated
   \<and> Contains query_ascii_annotated specialPrefix
   \<and> addSpecialComment unicode_ToUpper_excerpt query_ascii_annotated =
       Some query_ascii_annotated
   \<and> Option.bind (addSpecialComment unicode_ToUpper_excerpt query_ascii)
         (addSpecialComment unicode_ToUpper_excerpt) =
       Some query_ascii_annotated"
  using addSpecialComment_idempotent [of unicode_ToUpper_excerpt query_ascii]
    addSpecialComment_idempotent
      [of unicode_ToUpper_excerpt query_ascii_annotated]
  by (simp add: query_ascii_result query_ascii_isASCII annotated_is_marked)

text \<open>
  C5 fails on the code where upper-casing changes the byte length of the statement. The
  clause is found in the upper-cased copy and the statement is cut at the offsets found
  there. With a dotless i before the clause the copy is one byte shorter: the marker
  lands one byte early and the digit is left outside the comment. With a turned a before
  the clause the copy is one byte longer: the end offset is beyond the statement and the
  slice expression panics.
\<close>

theorem addSpecialComment_cuts_at_upper_case_offsets:
  "\<not> Contains query_dotless_i specialPrefix
   \<and> addSpecialComment unicode_ToUpper_excerpt query_dotless_i =
       Some (''create table kay'' @ [CHR 0xC4, CHR 0xB1]
             @ ''t (a int)/*!90000  shard_row_id_bits= */4'')
   \<and> \<not> Contains query_turned_a specialPrefix
   \<and> addSpecialComment unicode_ToUpper_excerpt query_turned_a = None"
  by code_simp

text \<open>
  C8 fails on the code for the same reason: with a client that is not nil, \<open>SetDDLBinlog\<close>
  on a statement that makes the annotator panic sets no option, it panics.
\<close>

theorem SetDDLBinlog_panics_with_annotator:
  "SetDDLBinlog unicode_ToUpper_excerpt (Some (failing_relay unavailable_text)) empty_txn 7
      query_turned_a = None"
  by code_simp

section \<open>Properties of the address validator\<close>

lemma loop_step:
  "ParseHostPortAddr_loop (str # strs) addrs =
     (case endpoint_of str of
        Inl e \<Rightarrow> Inl e
      | Inr a \<Rightarrow> ParseHostPortAddr_loop strs (addrs @ [a]))"
  by (auto simp: endpoint_of_def split: sum.splits)

lemma loop_all_valid:
  "\<forall>c \<in> set strs. \<exists>a. endpoint_of c = Inr a \<Longrightarrow>
     ParseHostPortAddr_loop strs addrs = Inr (addrs @ map (\<lambda>c. projr (endpoint_of c)) strs)"
proof (induction strs arbitrary: addrs)
  case Nil
  show ?case by simp
next
  case (Cons c strs)
  from Cons.prems obtain a where a: "endpoint_of c = Inr a" by auto
  from Cons.prems have rest: "\<forall>c \<in> set strs. \<exists>a. endpoint_of c = Inr a" by simp
  show ?case
    unfolding loop_step using a Cons.IH [OF rest, of "addrs @ [a]"] by simp
qed

lemma loop_first_failure:
  "\<forall>p \<in> set pre. \<exists>a. endpoint_of p = Inr a \<Longrightarrow> endpoint_of c = Inl e \<Longrightarrow>
     ParseHostPortAddr_loop (pre @ c # post) addrs = Inl e"
proof (induction pre arbitrary: addrs)
  case Nil
  then show ?case unfolding append_Nil loop_step by simp
next
  case (Cons p pre)
  from Cons.prems obtain a where a: "endpoint_of p = Inr a" by auto
  from Cons.prems have rest: "\<forall>p \<in> set pre. \<exists>a. endpoint_of p = Inr a" by simp
  show ?case
    unfolding append_Cons loop_step using a Cons.IH [OF rest Cons.prems(2)] by simp
qed

lemma loop_success_valid:
  "ParseHostPortAddr_loop strs addrs = Inr out \<Longrightarrow> \<forall>c \<in> set strs. \<exists>a. endpoint_of c = Inr a"
proof (induction strs arbitrary: addrs)
  case Nil
  show ?case by simp
next
  case (Cons c strs)
  from Cons.prems obtain a where a: "endpoint_of c = Inr a"
    and rest: "ParseHostPortAddr_loop strs (addrs @ [a]) = Inr out"
    unfolding loop_step by (cases "endpoint_of c") auto
  from Cons.IH [OF rest] a show ?case by simp
qed

lemma endpoint_of_cases:
  "(\<forall>err. url_Parse (candidate c) = Inl err \<longrightarrow> endpoint_of c = Inl (Trace err))
   \<and> (\<forall>u. url_Parse (candidate c) = Inr u \<longrightarrow>
        (Scheme u \<notin> {''http'', ''https'', ''unix'', ''unixs''} \<longrightarrow>
           endpoint_of c = Inl (invalid_scheme (candidate c)))
      \<and> (Scheme u \<in> {''http'', ''https'', ''unix'', ''unixs''} \<and> isl (SplitHostPort (Host u)) \<longrightarrow>
           endpoint_of c = Inl (invalid_host_port (candidate c)))
      \<and> (Scheme u \<in> {''http'', ''https'', ''unix'', ''unixs''} \<and> \<not> isl (SplitHostPort (Host u))
           \<and> Path u \<noteq> [] \<longrightarrow> endpoint_of c = Inl (unexpected_path (candidate c)))
      \<and> (Scheme u \<in> {''http'', ''https'', ''unix'', ''unixs''} \<and> \<not> isl (SplitHostPort (Host u))
           \<and> Path u = [] \<longrightarrow> endpoint_of c = Inr (URL_String u)))"
  by (auto simp: endpoint_of_def)

lemma empty_candidate: "TrimSpace c = [] \<Longrightarrow> candidate c = ''http://''"
  by (simp add: candidate_def)

lemma parse_bare_http: "url_Parse ''http://'' = Inr (new_URL\<lparr>Scheme := ''http''\<rparr>)"
  by code_simp

lemma split_empty_host: "SplitHostPort [] = Inl ''missing port in address''"
  by code_simp

lemma endpoint_of_empty:
  "TrimSpace c = [] \<Longrightarrow> endpoint_of c = Inl (invalid_host_port ''http://'')"
  by (simp add: endpoint_of_def empty_candidate parse_bare_http split_empty_host new_URL_def)

lemma Split_nonempty: "Split s sep \<noteq> []"
  by (induction s) (auto split: list.splits)

lemma Split_empty_string: "Split [] sep = [[]]"
  by simp

lemma TrimSpace_empty: "TrimSpace [] = []"
  by (simp add: TrimSpace_def)

lemma Split_append: "Split (a @ sep # b) sep = Split a sep @ Split b sep"
proof (induction a)
  case Nil
  show ?case by simp
next
  case (Cons c a)
  show ?case
  proof (cases "c = sep")
    case True
    with Cons.IH show ?thesis by simp
  next
    case False
    obtain piece pieces where sp: "Split a sep = piece # pieces"
      using Split_nonempty [of a sep] by (cases "Split a sep") auto
    with False Cons.IH show ?thesis by simp
  qed
qed

lemma ParseHostPortAddr_empty_candidate_fails:
  assumes "\<exists>c \<in> set (Split s (CHR '','')). TrimSpace c = []"
  shows "\<exists>e. ParseHostPortAddr s = Inl e"
proof (cases "ParseHostPortAddr s")
  case (Inl e)
  then show ?thesis by blast
next
  case (Inr out)
  then have "\<forall>c \<in> set (Split s (CHR '','')). \<exists>a. endpoint_of c = Inr a"
    unfolding ParseHostPortAddr_def by (rule loop_success_valid)
  moreover from assms obtain c where "c \<in> set (Split s (CHR '',''))"
    and "endpoint_of c = Inl (invalid_host_port ''http://'')"
    using endpoint_of_empty by blast
  ultimately show ?thesis by auto
qed

lemma Split_good: "Split addrs_good (CHR '','') = ['' 127.0.0.1:8250 '', '' https://pump1:8250'', ''127.0.0.1:8250'']"
  by code_simp

lemma endpoint_good_1: "endpoint_of '' 127.0.0.1:8250 '' = Inr ''http://127.0.0.1:8250''"
  by code_simp

lemma endpoint_good_2: "endpoint_of '' https://pump1:8250'' = Inr ''https://pump1:8250''"
  by code_simp

lemma endpoint_good_3: "endpoint_of ''127.0.0.1:8250'' = Inr ''http://127.0.0.1:8250''"
  by code_simp

lemma Split_bad_second: "Split addrs_bad_second (CHR '','') = [''h:1'', ''bad::port'', ''x/y'']"
  by code_simp

lemma endpoint_h1: "endpoint_of ''h:1'' = Inr ''http://h:1''"
  by code_simp

lemma endpoint_bad_port: "endpoint_of ''bad::port'' = Inl (invalid_host_port ''http://bad::port'')"
  by code_simp

text \<open>
  C6 fails on the code. The validator prepends \<open>http://\<close> to every candidate that lacks
  the text \<open>http\<close>, not to every candidate that lacks a scheme. A unix candidate written
  with its own scheme is parsed as \<open>http://unix://...\<close> and rejected for its path, although
  the validator lists unix and unixs among the schemes it accepts; it is accepted only if
  \<open>http\<close> happens to occur in it. A host:port without scheme whose host contains \<open>http\<close>
  gets no scheme and is rejected for the scheme its host name is taken for.
\<close>

theorem ParseHostPortAddr_rejects_unix_and_http_hosts:
  "ParseHostPortAddr ''unix://127.0.0.1:8250'' =
     Inl (unexpected_path ''http://unix://127.0.0.1:8250'')
   \<and> ParseHostPortAddr ''httpbin.org:80'' = Inl (invalid_scheme ''httpbin.org:80'')
   \<and> ParseHostPortAddr ''unix://http-sock:1'' = Inr [''unix://http-sock:1'']"
  by code_simp

text \<open>
  C7, as stated, fails in two ways. A candidate that \<open>url.Parse\<close> rejects has no parsed
  scheme, host or path, and the call fails with the parse error, which is none of the
  three errors of the claim. And a candidate with a bad scheme does not make the call
  fail with the invalid-scheme error when an earlier candidate fails otherwise.
\<close>

theorem ParseHostPortAddr_other_failures:
  "ParseHostPortAddr ''http://[::1'' =
     Inl (Trace (Error ''parse'' ''http://[::1'' (url_errors_New ''missing ']' in host'')))
   \<and> map_sum id Scheme (url_Parse (candidate ''httpx://a:1'')) = Inr ''httpx''
   \<and> ParseHostPortAddr ''h:1/p,httpx://a:1'' = Inl (unexpected_path ''http://h:1/p'')"
  by code_simp

text \<open>
  C7, amended. Take the candidates in input order. If every one is valid, the call
  succeeds and returns the normal form of each candidate, in input order and with
  duplicates kept; and it succeeds only then. Otherwise it fails with the error of the
  first candidate that is not valid. A candidate fails with the error of \<open>url.Parse\<close> if it
  does not parse; else with the invalid-scheme error if its scheme is none of http, https,
  unix, unixs; else with the invalid-host-port error if its host does not split as
  host:port; else with the unexpected-path error if its path is not empty; else it is
  valid and its normal form is the parsed URI written back.
\<close>

theorem ParseHostPortAddr_first_failure:
  assumes "Split s (CHR '','') = strs"
  shows "((\<forall>c \<in> set strs. \<exists>a. endpoint_of c = Inr a) \<longrightarrow>
            ParseHostPortAddr s = Inr (map (\<lambda>c. projr (endpoint_of c)) strs))
       \<and> (\<forall>out. ParseHostPortAddr s = Inr out \<longrightarrow>
            (\<forall>c \<in> set strs. \<exists>a. endpoint_of c = Inr a))
       \<and> (\<forall>pre c post e. strs = pre @ c # post \<and> (\<forall>p \<in> set pre. \<exists>a. endpoint_of p = Inr a)
            \<and> endpoint_of c = Inl e \<longrightarrow> ParseHostPortAddr s = Inl e)
       \<and> (\<forall>c err. url_Parse (candidate c) = Inl err \<longrightarrow> endpoint_of c = Inl (Trace err))
       \<and> (\<forall>c u. url_Parse (candidate c) = Inr u \<longrightarrow>
            (Scheme u \<notin> {''http'', ''https'', ''unix'', ''unixs''} \<longrightarrow>
               endpoint_of c = Inl (invalid_scheme (candidate c)))
          \<and> (Scheme u \<in> {''http'', ''https'', ''unix'', ''unixs''}
               \<and> isl (SplitHostPort (Host u)) \<longrightarrow>
               endpoint_of c = Inl (invalid_host_port (candidate c)))
          \<and> (Scheme u \<in> {''http'', ''https'', ''unix'', ''unixs''}
               \<and> \<not> isl (SplitHostPort (Host u)) \<and> Path u \<noteq> [] \<longrightarrow>
               endpoint_of c = Inl (unexpected_path (candidate c)))
          \<and> (Scheme u \<in> {''http'', ''https'', ''unix'', ''unixs''}
               \<and> \<not> isl (SplitHostPort (Host u)) \<and> Path u = [] \<longrightarrow>
               endpoint_of c = Inr (URL_String u)))"
proof (intro conjI)
  show "(\<forall>c \<in> set strs. \<exists>a. endpoint_of c = Inr a) \<longrightarrow>
            ParseHostPortAddr s = Inr (map (\<lambda>c. projr (endpoint_of c)) strs)"
    using loop_all_valid [of strs "[]"] assms by (simp add: ParseHostPortAddr_def)
  show "\<forall>out. ParseHostPortAddr s = Inr out \<longrightarrow>
            (\<forall>c \<in> set strs. \<exists>a. endpoint_of c = Inr a)"
    using loop_success_valid [of strs "[]"] assms by (simp add: ParseHostPortAddr_def)
  show "\<forall>pre c post e. strs = pre @ c # post \<and> (\<forall>p \<in> set pre. \<exists>a. endpoint_of p = Inr a)
            \<and> endpoint_of c = Inl e \<longrightarrow> ParseHostPortAddr s = Inl e"
    using loop_first_failure assms by (simp add: ParseHostPortAddr_def)
  show "\<forall>c err. url_Parse (candidate c) = Inl err \<longrightarrow> endpoint_of c = Inl (Trace err)"
    using endpoint_of_cases by blast
  show "\<forall>c u. url_Parse (candidate c) = Inr u \<longrightarrow>
            (Scheme u \<notin> {''http'', ''https'', ''unix'', ''unixs''} \<longrightarrow>
               endpoint_of c = Inl (invalid_scheme (candidate c)))
          \<and> (Scheme u \<in> {''http'', ''https'', ''unix'', ''unixs''}
               \<and> isl (SplitHostPort (Host u)) \<longrightarrow>
               endpoint_of c = Inl (invalid_host_port (candidate c)))
          \<and> (Scheme u \<in> {''http'', ''https'', ''unix'', ''unixs''}
               \<and> \<not> isl (SplitHostPort (Host u)) \<and> Path u \<noteq> [] \<longrightarrow>
               endpoint_of c = Inl (unexpected_path (candidate c)))
          \<and> (Scheme u \<in> {''http'', ''https'', ''unix'', ''unixs''}
               \<and> \<not> isl (SplitHostPort (Host u)) \<and> Path u = [] \<longrightarrow>
               endpoint_of c = Inr (URL_String u))"
    using endpoint_of_cases by blast
qed

theorem ParseHostPortAddr_first_failure_witness:
  "ParseHostPortAddr addrs_good =
     Inr [''http://127.0.0.1:8250'', ''https://pump1:8250'', ''http://127.0.0.1:8250'']
   \<and> ParseHostPortAddr addrs_bad_second = Inl (invalid_host_port ''http://bad::port'')"
proof -
  have good: "\<forall>c \<in> set ['' 127.0.0.1:8250 '', '' https://pump1:8250'', ''127.0.0.1:8250''].
      \<exists>a. endpoint_of c = Inr a"
    by (simp add: endpoint_good_1 endpoint_good_2 endpoint_good_3)
  from ParseHostPortAddr_first_failure [OF Split_good] good
  have 1: "ParseHostPortAddr addrs_good =
     Inr [''http://127.0.0.1:8250'', ''https://pump1:8250'', ''http://127.0.0.1:8250'']"
    by (simp add: endpoint_good_1 endpoint_good_2 endpoint_good_3)
  from ParseHostPortAddr_first_failure [OF Split_bad_second]
  have "[''h:1'', ''bad::port'', ''x/y''] = [''h:1''] @ ''bad::port'' # [''x/y'']
      \<and> (\<forall>p \<in> set [''h:1'']. \<exists>a. endpoint_of p = Inr a)
      \<and> endpoint_of ''bad::port'' = Inl (invalid_host_port ''http://bad::port'')
      \<longrightarrow> ParseHostPortAddr addrs_bad_second = Inl (invalid_host_port ''http://bad::port'')"
    by blast
  then have 2: "ParseHostPortAddr addrs_bad_second = Inl (invalid_host_port ''http://bad::port'')"
    by (simp add: endpoint_h1 endpoint_bad_port)
  from 1 2 show ?thesis by simp
qed

text \<open>
  C9, as stated, fails: an input with a trailing comma whose first candidate has a path
  returns the unexpected-path error of that candidate, not the invalid-host-port error.
\<close>

theorem trailing_comma_after_bad_candidate:
  "Split ''h:1/p,'' (CHR '','') = [''h:1/p'', '''']
   \<and> ParseHostPortAddr ''h:1/p,'' = Inl (unexpected_path ''http://h:1/p'')"
  by code_simp

text \<open>
  C9, amended. The validator never succeeds on an input with a candidate that is empty
  after trimming: the call returns an error, never a list. The error is the
  invalid-host-port error for \<open>http://\<close> whenever every candidate before the first empty one
  is valid, in particular for the empty string and for an input with a leading comma. An
  input with a trailing or a doubled comma has an empty candidate, so it fails too.
\<close>

theorem empty_candidate_never_accepted:
  "((\<exists>c \<in> set (Split s (CHR '','')). TrimSpace c = []) \<longrightarrow> (\<exists>e. ParseHostPortAddr s = Inl e))
   \<and> (\<forall>pre c post. Split s (CHR '','') = pre @ c # post \<and> TrimSpace c = []
         \<and> (\<forall>p \<in> set pre. \<exists>a. endpoint_of p = Inr a) \<longrightarrow>
         ParseHostPortAddr s = Inl (invalid_host_port ''http://''))
   \<and> ParseHostPortAddr [] = Inl (invalid_host_port ''http://'')
   \<and> ParseHostPortAddr (CHR '','' # s) = Inl (invalid_host_port ''http://'')
   \<and> (\<exists>e. ParseHostPortAddr (s @ '','') = Inl e)
   \<and> (\<exists>e. ParseHostPortAddr (s @ '',,'' @ t) = Inl e)"
proof (intro conjI)
  show "(\<exists>c \<in> set (Split s (CHR '','')). TrimSpace c = []) \<longrightarrow> (\<exists>e. ParseHostPortAddr s = Inl e)"
    using ParseHostPortAddr_empty_candidate_fails by blast
  show first: "\<forall>pre c post. Split s (CHR '','') = pre @ c # post \<and> TrimSpace c = []
         \<and> (\<forall>p \<in> set pre. \<exists>a. endpoint_of p = Inr a) \<longrightarrow>
         ParseHostPortAddr s = Inl (invalid_host_port ''http://'')"
    using loop_first_failure endpoint_of_empty by (simp add: ParseHostPortAddr_def)
  show "ParseHostPortAddr [] = Inl (invalid_host_port ''http://'')"
    using loop_first_failure [of "[]" "[]" _ "[]" "[]"] endpoint_of_empty [OF TrimSpace_empty]
    by (simp add: ParseHostPortAddr_def)
  show "ParseHostPortAddr (CHR '','' # s) = Inl (invalid_host_port ''http://'')"
    using loop_first_failure [of "[]" "[]" _ "Split s (CHR '','')" "[]"]
      endpoint_of_empty [OF TrimSpace_empty]
    by (simp add: ParseHostPortAddr_def)
  have "[] \<in> set (Split (s @ '','') (CHR '',''))"
    using Split_append [of s "CHR '',''" "[]"] by simp
  then show "\<exists>e. ParseHostPortAddr (s @ '','') = Inl e"
    using ParseHostPortAddr_empty_candidate_fails TrimSpace_empty by blast
  have "[] \<in> set (Split (s @ '',,'' @ t) (CHR '',''))"
    using Split_append [of s "CHR '',''" "CHR '','' # t"] by simp
  then show "\<exists>e. ParseHostPortAddr (s @ '',,'' @ t) = Inl e"
    using ParseHostPortAddr_empty_candidate_fails TrimSpace_empty by blast
qed

lemma Split_doubled: "Split ''h:1,,h:2'' (CHR '','') = [''h:1''] @ [] # [''h:2'']"
  by code_simp

theorem empty_candidate_never_accepted_witness:
  "(\<exists>c \<in> set (Split ''h:1,,h:2'' (CHR '','')). TrimSpace c = [])
   \<and> ParseHostPortAddr ''h:1,,h:2'' = Inl (invalid_host_port ''http://'')"
proof -
  have pre: "\<forall>p \<in> set [''h:1'']. \<exists>a. endpoint_of p = Inr a"
    by (simp add: endpoint_h1)
  from empty_candidate_never_accepted [of "''h:1,,h:2''"]
  have "Split ''h:1,,h:2'' (CHR '','') = [''h:1''] @ [] # [''h:2''] \<and> TrimSpace [] = []
         \<and> (\<forall>p \<in> set [''h:1'']. \<exists>a. endpoint_of p = Inr a) \<longrightarrow>
         ParseHostPortAddr ''h:1,,h:2'' = Inl (invalid_host_port ''http://'')"
    by blast
  with Split_doubled TrimSpace_empty pre
  have 1: "ParseHostPortAddr ''h:1,,h:2'' = Inl (invalid_host_port ''http://'')"
    by blast
  have "[] \<in> set (Split ''h:1,,h:2'' (CHR '',''))"
    unfolding Split_doubled by simp
  with TrimSpace_empty have 2: "\<exists>c \<in> set (Split ''h:1,,h:2'' (CHR '','')). TrimSpace c = []"
    by blast
  from 1 2 show ?thesis by simp
qed


subsection \<open>Plain host:port candidates\<close>

text \<open>
  Where the validator does what its contract says: a candidate \<open>host:port\<close> of letters,
  digits, dots and hyphens with a numeric port, in which the text \<open>http\<close> does not occur,
  is accepted and normalized to \<open>http://host:port\<close>.
\<close>

lemma HasPrefix_Cons_other: "x \<noteq> c \<Longrightarrow> \<not> HasPrefix (x # xs) (c # sub)"
  by simp

lemma Index_absent: "c \<notin> set s \<Longrightarrow> Index s (c # sub) = None"
  by (induction s) auto

lemma Index_first: "c \<notin> set a \<Longrightarrow> Index (a @ c # b) [c] = Some (length a)"
  by (induction a) auto

lemma LastIndex_absent: "c \<notin> set s \<Longrightarrow> LastIndex s [c] = None"
  by (simp add: LastIndex_def Index_absent)

lemma LastIndex_last: "c \<notin> set b \<Longrightarrow> LastIndex (a @ c # b) [c] = Some (length a)"
  using Index_first [of c "rev b" "rev a"] by (simp add: LastIndex_def)

lemma Split_single: "sep \<notin> set s \<Longrightarrow> Split s sep = [s]"
  by (induction s) auto

lemma url_split_absent: "c \<notin> set s \<Longrightarrow> url_split s [c] cutc = (s, [])"
  by (simp add: url_split_def Index_absent)

lemma HasSuffix_absent: "c \<notin> set s \<Longrightarrow> \<not> HasSuffix s [c]"
proof (cases "rev s")
  case Nil
  then show ?thesis by (simp add: HasSuffix_def)
next
  case (Cons x xs)
  assume "c \<notin> set s"
  then have "c \<notin> set (rev s)" by simp
  with Cons have "x \<noteq> c" by auto
  with Cons show ?thesis by (simp add: HasSuffix_def)
qed

lemma host_port_char_ascii: "host_port_char c \<Longrightarrow> byte c < 0x80"
  by (auto simp: host_port_char_def between_def byte_def)

lemma host_port_char_not_space: "host_port_char c \<Longrightarrow> \<not> IsSpace (byte c)"
  by (auto simp: host_port_char_def between_def byte_def IsSpace_def)

lemma host_port_char_unescaped: "host_port_char c \<Longrightarrow> \<not> shouldEscape c encodeHost"
  by (auto simp: host_port_char_def shouldEscape_def)

lemma host_port_char_other:
  assumes "host_port_char c"
  shows "c \<noteq> CHR '',''" "c \<noteq> CHR ''#''" "c \<noteq> CHR ''?''" "c \<noteq> CHR ''/''" "c \<noteq> CHR ''@''"
    "c \<noteq> CHR ''%''" "c \<noteq> CHR ''[''" "c \<noteq> CHR '']''" "c \<noteq> CHR ''+''"
  using assms by (auto simp: host_port_char_def between_def byte_def)

lemma TrimLeft_plain:
  "byte c < 0x80 \<Longrightarrow> \<not> IsSpace (byte c) \<Longrightarrow> TrimLeft_space (c # cs) = c # cs"
  by (simp add: DecodeRune_def Let_def)

lemma TrimRight_plain:
  "byte c < 0x80 \<Longrightarrow> \<not> IsSpace (byte c) \<Longrightarrow> TrimRight_space_rev (c # cs) = c # cs"
  by (simp add: DecodeLastRune_def)

lemma TrimSpace_plain:
  assumes "\<forall>c \<in> set s. host_port_char c"
  shows "TrimSpace s = s"
proof (cases s)
  case Nil
  then show ?thesis by (simp add: TrimSpace_def)
next
  case (Cons c cs)
  with assms have c: "host_port_char c" by simp
  have "TrimLeft_space (c # cs) = c # cs"
    by (rule TrimLeft_plain [OF host_port_char_ascii [OF c] host_port_char_not_space [OF c]])
  with Cons have left: "TrimLeft_space s = s" by simp
  from Cons obtain l ls where r: "rev s = l # ls" by (cases "rev s") auto
  then have "l \<in> set s" by (metis list.set_intros(1) set_rev)
  with assms have l: "host_port_char l" by blast
  have "TrimRight_space_rev (l # ls) = l # ls"
    by (rule TrimRight_plain [OF host_port_char_ascii [OF l] host_port_char_not_space [OF l]])
  with r have "TrimRight_space_rev (rev s) = rev s" by simp
  with left show ?thesis by (simp add: TrimSpace_def)
qed

lemma unescape_host_plain:
  "\<forall>c \<in> set s. host_port_char c \<Longrightarrow> unescape s encodeHost = Inr s"
proof -
  assume a: "\<forall>c \<in> set s. host_port_char c"
  then have 1: "unescape_check s encodeHost = None"
    by (induction s) (auto simp: host_port_char_other host_port_char_unescaped)
  from a have 2: "unescape_bytes s encodeHost = s"
    by (induction s) (auto simp: host_port_char_other)
  from 1 2 show ?thesis by (simp add: unescape_def)
qed

lemma escape_host_plain:
  "\<forall>c \<in> set s. host_port_char c \<Longrightarrow> escape s encodeHost = s"
  by (induction s) (auto simp: host_port_char_unescaped)

lemma getscheme_http: "getscheme (''http://'' @ s) = Inr (''http'', ''//'' @ s)"
  by (simp add: getscheme_def between_def byte_def)

lemma no_bracket_prefix: "\<forall>c \<in> set s. host_port_char c \<Longrightarrow> \<not> HasPrefix s ''[''"
  by (cases s) (auto simp: host_port_char_other)

lemma parseHost_plain:
  assumes "\<forall>c \<in> set s. host_port_char c"
  shows "parseHost s = Inr s"
  using no_bracket_prefix [OF assms] unescape_host_plain [OF assms]
  by (simp add: parseHost_def)

lemma parseAuthority_plain:
  assumes "\<forall>c \<in> set s. host_port_char c"
  shows "parseAuthority s = Inr (None, s)"
proof -
  from assms have "CHR ''@'' \<notin> set s" using host_port_char_other(5) by blast
  then have "LastIndex s ''@'' = None" by (rule LastIndex_absent)
  with parseHost_plain [OF assms] show ?thesis by (simp add: parseAuthority_def)
qed

lemma setPath_empty: "setPath u [] = Inr (u\<lparr>Path := [], RawPath := []\<rparr>)"
  by (simp add: setPath_def unescape_def)

lemma parse_http_plain:
  assumes "\<forall>c \<in> set s. host_port_char c"
  shows "parse (''http://'' @ s) False = Inr (new_URL\<lparr>Scheme := ''http'', Host := s\<rparr>)"
proof -
  define rest where "rest = ''//'' @ s"
  from assms have qs: "CHR ''?'' \<notin> set s" using host_port_char_other(3) by blast
  then have q: "CHR ''?'' \<notin> set rest" by (simp add: rest_def)
  from assms have sl: "CHR ''/'' \<notin> set s" using host_port_char_other(4) by blast
  have force: "HasSuffix rest ''?'' = False" using HasSuffix_absent [OF q] by simp
  have sp: "url_split rest ''?'' True = (rest, [])" by (rule url_split_absent [OF q])
  have au: "url_split (drop 2 rest) ''/'' False = (s, [])"
    using url_split_absent [OF sl] by (simp add: rest_def)
  have pre1: "HasPrefix rest ''/'' = True" and pre2: "HasPrefix rest ''//'' = True"
    by (simp_all add: rest_def)
  have lower: "map lower_byte ''http'' = ''http''" by (simp add: lower_byte_def byte_def)
  have gs: "getscheme (''http://'' @ s) = Inr (''http'', rest)"
    unfolding rest_def by (rule getscheme_http)
  have ne: "(''http://'' @ s = []) = False" "(''http://'' @ s = ''*'') = False" by simp_all
  show ?thesis
    unfolding parse_def gs ne
    by (simp add: Let_def force sp au pre1 pre2 parseAuthority_plain [OF assms]
          setPath_empty new_URL_def lower_byte_def byte_def)
qed

lemma url_Parse_http_plain:
  assumes "\<forall>c \<in> set s. host_port_char c"
  shows "url_Parse (''http://'' @ s) = Inr (new_URL\<lparr>Scheme := ''http'', Host := s\<rparr>)"
proof -
  from assms have "CHR ''#'' \<notin> set s" using host_port_char_other(2) by blast
  then have "CHR ''#'' \<notin> set (''http://'' @ s)" by simp
  then have "url_split (''http://'' @ s) ''#'' True = (''http://'' @ s, [])"
    by (rule url_split_absent)
  with parse_http_plain [OF assms] show ?thesis by (simp add: url_Parse_def)
qed

lemma SplitHostPort_plain:
  assumes h: "\<forall>c \<in> set h. host_port_char c \<and> c \<noteq> CHR '':''"
    and p: "\<forall>c \<in> set p. between (CHR ''0'') (CHR ''9'') c"
  shows "SplitHostPort (h @ '':'' @ p) = Inr (h, p)"
proof -
  from p have pc: "CHR '':'' \<notin> set p" by (auto simp: between_def byte_def)
  from h have hc: "CHR '':'' \<notin> set h" by blast
  have pb: "CHR ''['' \<notin> set p" "CHR '']'' \<notin> set p" using p by (auto simp: between_def byte_def)
  have hb1: "CHR ''['' \<notin> set h"
  proof
    assume "CHR ''['' \<in> set h"
    with h have "host_port_char (CHR ''['')" by blast
    then show False by (simp add: host_port_char_def between_def byte_def)
  qed
  have hb2: "CHR '']'' \<notin> set h"
  proof
    assume "CHR '']'' \<in> set h"
    with h have "host_port_char (CHR '']'')" by blast
    then show False by (simp add: host_port_char_def between_def byte_def)
  qed
  note hb = hb1 hb2
  have last: "LastIndex (h @ '':'' @ p) '':'' = Some (length h)"
    using LastIndex_last [OF pc, of h] by simp
  have hd: "hd (h @ '':'' @ p) \<noteq> CHR ''[''"
    using hb by (cases h) auto
  have i1: "Index h '':'' = None" by (rule Index_absent [OF hc])
  have i2: "Index (h @ '':'' @ p) ''['' = None"
    by (rule Index_absent) (use hb pb in auto)
  have i3: "Index (h @ '':'' @ p) '']'' = None"
    by (rule Index_absent) (use hb pb in auto)
  show ?thesis
    unfolding SplitHostPort_def last using hd i1 i2 i3 by simp
qed

lemma URL_String_http_plain:
  assumes "\<forall>c \<in> set s. host_port_char c" and "s \<noteq> []"
  shows "URL_String (new_URL\<lparr>Scheme := ''http'', Host := s\<rparr>) = ''http://'' @ s"
  using assms escape_host_plain [OF assms(1)]
  by (simp add: URL_String_def new_URL_def EscapedPath_def Let_def)

lemma endpoint_of_plain:
  assumes h: "\<forall>c \<in> set h. host_port_char c \<and> c \<noteq> CHR '':''"
    and p: "\<forall>c \<in> set p. between (CHR ''0'') (CHR ''9'') c"
    and nohttp: "\<not> Contains (h @ '':'' @ p) ''http''"
  shows "endpoint_of (h @ '':'' @ p) = Inr (''http://'' @ h @ '':'' @ p)"
proof -
  let ?s = "h @ '':'' @ p"
  from h p have all: "\<forall>c \<in> set ?s. host_port_char c"
    by (auto simp: host_port_char_def)
  have cand: "candidate ?s = ''http://'' @ ?s"
    using TrimSpace_plain [OF all] nohttp by (simp add: candidate_def)
  have ne: "?s \<noteq> []" by simp
  show ?thesis
    unfolding endpoint_of_def cand url_Parse_http_plain [OF all]
    using SplitHostPort_plain [OF h p] URL_String_http_plain [OF all ne]
    by (simp add: new_URL_def)
qed

lemma ParseHostPortAddr_plain_host_port:
  assumes h: "\<forall>c \<in> set h. host_port_char c \<and> c \<noteq> CHR '':''"
    and p: "\<forall>c \<in> set p. between (CHR ''0'') (CHR ''9'') c"
    and nohttp: "\<not> Contains (h @ '':'' @ p) ''http''"
  shows "ParseHostPortAddr (h @ '':'' @ p) = Inr [''http://'' @ h @ '':'' @ p]"
proof -
  let ?s = "h @ '':'' @ p"
  from h have "CHR '','' \<notin> set h" using host_port_char_other(1) by blast
  moreover from p have "CHR '','' \<notin> set p" by (auto simp: between_def byte_def)
  ultimately have "CHR '','' \<notin> set ?s" by simp
  then have sp: "Split ?s (CHR '','') = [?s]" by (rule Split_single)
  have "\<forall>c \<in> set [?s]. \<exists>a. endpoint_of c = Inr a"
    using endpoint_of_plain [OF h p nohttp] by simp
  from loop_all_valid [OF this, of "[]"] endpoint_of_plain [OF h p nohttp] sp
  show ?thesis by (simp add: ParseHostPortAddr_def)
qed

end
